theory Spec2Isabelle
  imports Complex_Main "HOL-Library.Sublist" "HOL-Library.Code_Target_Numeral"
begin

section \<open>JavaScript numbers and values\<close>

text \<open>
  The tip generator of \<^verbatim>\<open>health-tips.js\<close> works on the entries of a JSON log. A field of an
  entry is absent (\<^verbatim>\<open>undefined\<close>), \<^verbatim>\<open>null\<close>, a boolean, a number or a string; the code tests
  fields for truthiness, passes them to \<^verbatim>\<open>parseFloat\<close>, compares them with numbers and
  concatenates them into strings.

  A number is an IEEE 754 binary64 value: \<^verbatim>\<open>NaN\<close>, an infinity, or a finite value, kept as
  the rational it denotes. Every arithmetic result and every parsed literal is rounded to
  the nearest double (ties to even) by \<open>F64\<close>, which overflows to an infinity. The two
  zeros are one value: the code never divides by a zero, and both print, compare and
  test alike. Strings are lists of bytes, the UTF-8 encoding of the text; array and
  object values of a field are outside the data model.
\<close>

datatype jsnum = Fin rat | PInf | NInf | NaN

datatype jsval = JUndefined | JNull | JBool bool | JNum jsnum | JStr string

subsection \<open>Rounding to binary64\<close>

definition pow2 :: "int \<Rightarrow> rat" where
  "pow2 e = (if 0 \<le> e then 2 ^ nat e else 1 / 2 ^ nat (- e))"

definition pow10 :: "int \<Rightarrow> rat" where
  "pow10 e = (if 0 \<le> e then 10 ^ nat e else 1 / 10 ^ nat (- e))"

text \<open>The number of binary digits of a positive integer (0 for the others).\<close>

function bit_length :: "int \<Rightarrow> nat" where
  "bit_length n =
     (if 2 ^ 64 \<le> n then 64 + bit_length (n div 2 ^ 64)
      else if 2 ^ 8 \<le> n then 8 + bit_length (n div 2 ^ 8)
      else if 0 < n then 1 + bit_length (n div 2)
      else 0)"
  by pat_completeness auto
termination
  by (relation "measure nat") (auto simp: int_div_less_self)

declare bit_length.simps [simp del]

text \<open>
  The binary exponent of a positive rational, \<open>\<lfloor>log\<^sub>2 a\<rfloor>\<close>: read off the bit length of the
  integer part of \<open>a\<close> or of \<open>1 / a\<close>, and one more where \<open>a\<close> is an exact power of two
  below 1.
\<close>

definition ilog2_near :: "rat \<Rightarrow> int" where
  "ilog2_near a =
     (if 1 \<le> a then int (bit_length \<lfloor>a\<rfloor>) - 1 else - int (bit_length \<lfloor>1 / a\<rfloor>))"

definition ilog2_adjust :: "rat \<Rightarrow> int \<Rightarrow> int" where
  "ilog2_adjust a c = (if pow2 (c + 1) \<le> a then c + 1 else c)"

definition ilog2 :: "rat \<Rightarrow> int" where
  "ilog2 a = ilog2_adjust a (ilog2_near a)"

text \<open>The nearest integer, a tie going to the even one.\<close>

definition nearest_even :: "rat \<Rightarrow> int \<Rightarrow> int" where
  "nearest_even m f =
     (if m - of_int f < 1 / 2 then f
      else if 1 / 2 < m - of_int f then f + 1
      else if even f then f else f + 1)"

definition round_half_even :: "rat \<Rightarrow> int" where
  "round_half_even m = nearest_even m \<lfloor>m\<rfloor>"

text \<open>
  The exponent of the last binary place of the double nearest to a positive rational: 52
  places below the leading one, and never below the subnormal place \<open>2\<^sup>-\<^sup>1\<^sup>0\<^sup>7\<^sup>4\<close>.
\<close>

definition quantum :: "rat \<Rightarrow> int" where
  "quantum a = max (ilog2 a - 52) (- 1074)"

text \<open>
  The value \<open>n * 2\<^sup>p\<close> with its sign, where \<open>n \<le> 2\<^sup>5\<^sup>3\<close> is the rounded significand: it is
  an infinity from \<open>2\<^sup>1\<^sup>0\<^sup>2\<^sup>4\<close> on.
\<close>

definition pack :: "bool \<Rightarrow> int \<Rightarrow> int \<Rightarrow> jsnum" where
  "pack neg n p =
     (if 971 < p \<or> (p = 971 \<and> 2 ^ 53 \<le> n) then (if neg then NInf else PInf)
      else Fin (if neg then - (of_int n * pow2 p) else of_int n * pow2 p))"

definition round_at :: "rat \<Rightarrow> int \<Rightarrow> jsnum" where
  "round_at q p = pack (q < 0) (round_half_even (\<bar>q\<bar> / pow2 p)) p"

text \<open>The Number value of a rational: the nearest double, ties to even.\<close>

definition F64 :: "rat \<Rightarrow> jsnum" where
  "F64 q = (if q = 0 then Fin 0 else round_at q (quantum \<bar>q\<bar>))"

subsection \<open>Arithmetic\<close>

fun num_neg :: "jsnum \<Rightarrow> jsnum" where
  "num_neg (Fin q) = Fin (- q)"
| "num_neg PInf = NInf"
| "num_neg NInf = PInf"
| "num_neg NaN = NaN"

text \<open>\<^verbatim>\<open>x + y\<close> on numbers: the exact sum of two finite values, rounded.\<close>

fun num_add :: "jsnum \<Rightarrow> jsnum \<Rightarrow> jsnum" where
  "num_add NaN y = NaN"
| "num_add x NaN = NaN"
| "num_add (Fin a) (Fin b) = F64 (a + b)"
| "num_add PInf NInf = NaN"
| "num_add NInf PInf = NaN"
| "num_add PInf y = PInf"
| "num_add x PInf = PInf"
| "num_add NInf y = NInf"
| "num_add x NInf = NInf"

text \<open>
  \<^verbatim>\<open>x / y\<close> on numbers: the exact quotient of two finite values, rounded. A finite value
  divided by zero takes the sign of the dividend (the divisor of the source is a positive
  count, so the sign of zero plays no part).
\<close>

fun num_div :: "jsnum \<Rightarrow> jsnum \<Rightarrow> jsnum" where
  "num_div NaN y = NaN"
| "num_div x NaN = NaN"
| "num_div (Fin a) (Fin b) =
     (if b \<noteq> 0 then F64 (a / b) else if 0 < a then PInf else if a < 0 then NInf else NaN)"
| "num_div (Fin a) y = Fin 0"
| "num_div PInf (Fin b) = (if 0 \<le> b then PInf else NInf)"
| "num_div NInf (Fin b) = (if 0 \<le> b then NInf else PInf)"
| "num_div x y = NaN"

text \<open>The relational operators: every comparison with \<^verbatim>\<open>NaN\<close> is false.\<close>

fun num_lt :: "jsnum \<Rightarrow> jsnum \<Rightarrow> bool" where
  "num_lt NaN y = False"
| "num_lt x NaN = False"
| "num_lt (Fin a) (Fin b) = (a < b)"
| "num_lt x NInf = False"
| "num_lt NInf y = True"
| "num_lt PInf y = False"
| "num_lt x PInf = True"

definition num_le :: "jsnum \<Rightarrow> jsnum \<Rightarrow> bool" where
  "num_le x y = (x \<noteq> NaN \<and> y \<noteq> NaN \<and> \<not> num_lt y x)"

definition num_gt :: "jsnum \<Rightarrow> jsnum \<Rightarrow> bool" where
  "num_gt x y = num_lt y x"

definition num_ge :: "jsnum \<Rightarrow> jsnum \<Rightarrow> bool" where
  "num_ge x y = num_le y x"

text \<open>
  \<^verbatim>\<open>Math.round\<close>: the nearest integer, a tie going up. The result is exact: it is below
  \<open>2\<^sup>5\<^sup>3\<close>, or the argument is an integer already.
\<close>

fun Math_round :: "jsnum \<Rightarrow> jsnum" where
  "Math_round (Fin q) = Fin (of_int \<lfloor>q + 1 / 2\<rfloor>)"
| "Math_round x = x"

subsection \<open>Numbers to strings\<close>

definition digit_char :: "nat \<Rightarrow> char" where
  "digit_char d = ''0123456789'' ! d"

text \<open>The decimal digits of a natural number, without leading zeros.\<close>

function digits :: "nat \<Rightarrow> string" where
  "digits n = (if n < 10 then [digit_char n] else digits (n div 10) @ [digit_char (n mod 10)])"
  by pat_completeness auto
termination
  by (relation "measure id") auto

declare digits.simps [simp del]

text \<open>
  The decimal exponent of a positive rational: the \<open>n\<close> with \<open>10\<^sup>n\<^sup>-\<^sup>1 \<le> x < 10\<^sup>n\<close>, read off the
  digits of the integer part of \<open>x\<close> or of \<open>1 / x\<close>.
\<close>

definition dec_exponent_near :: "rat \<Rightarrow> int" where
  "dec_exponent_near x =
     (if 1 \<le> x then int (length (digits (nat \<lfloor>x\<rfloor>)))
      else 1 - int (length (digits (nat \<lfloor>1 / x\<rfloor>))))"

definition dec_exponent_adjust :: "rat \<Rightarrow> int \<Rightarrow> int" where
  "dec_exponent_adjust x c = (if pow10 c \<le> x then c + 1 else c)"

definition dec_exponent :: "rat \<Rightarrow> int" where
  "dec_exponent x = dec_exponent_adjust x (dec_exponent_near x)"

text \<open>
  \<^verbatim>\<open>Number::toString\<close> prints the shortest digit string that reads back as the same
  double. With \<open>k\<close> digits at the scale \<open>sc\<close>, the two candidates next to \<open>x\<close> are
  \<open>lo * sc \<le> x < (lo + 1) * sc\<close>; of those that round to \<open>x\<close> the nearer one is taken, and
  the even one at a tie.
\<close>

definition nearer :: "bool \<Rightarrow> bool \<Rightarrow> rat \<Rightarrow> rat \<Rightarrow> nat \<Rightarrow> nat option" where
  "nearer ok_lo ok_hi d_lo d_hi lo =
     (if ok_hi \<and> (\<not> ok_lo \<or> d_hi < d_lo \<or> (d_hi = d_lo \<and> even (lo + 1))) then Some (lo + 1)
      else if ok_lo then Some lo
      else None)"

definition at_scale :: "rat \<Rightarrow> rat \<Rightarrow> nat \<Rightarrow> nat option" where
  "at_scale x sc lo =
     nearer (F64 (of_nat lo * sc) = Fin x) (F64 (of_nat (lo + 1) * sc) = Fin x)
       (x - of_nat lo * sc) (of_nat (lo + 1) * sc - x) lo"

text \<open>
  The digits \<open>s\<close> and the exponent \<open>n\<close> (the value is \<open>s * 10\<^sup>n\<^sup>-\<^sup>k\<close>) for \<open>k\<close> digits, if \<open>k\<close>
  digits are enough; rounding up to \<open>10\<^sup>k\<close> gives the digit 1 with the next exponent.
\<close>

definition candidate :: "rat \<Rightarrow> int \<Rightarrow> nat \<Rightarrow> (nat \<times> int) option" where
  "candidate x n0 k =
     (case at_scale x (pow10 (n0 - int k)) (nat \<lfloor>x / pow10 (n0 - int k)\<rfloor>) of
        None \<Rightarrow> None
      | Some s \<Rightarrow> if s = 10 ^ k then Some (10 ^ (k - 1), n0 + 1) else Some (s, n0))"

fun first_candidate :: "rat \<Rightarrow> int \<Rightarrow> nat list \<Rightarrow> (nat \<times> int) option" where
  "first_candidate x n0 [] = None"
| "first_candidate x n0 (k # ks) =
     (case candidate x n0 k of Some c \<Rightarrow> Some c | None \<Rightarrow> first_candidate x n0 ks)"

text \<open>
  The least number of digits is tried first; 17 digits are enough for every double. (For
  a rational that is no double, which is no JavaScript number, the first 17 digits are
  taken.)
\<close>

definition shortest :: "rat \<Rightarrow> nat \<times> int" where
  "shortest x =
     (case first_candidate x (dec_exponent x)
             [1, 2, 3, 4, 5, 6, 7, 8, 9, 10, 11, 12, 13, 14, 15, 16, 17] of
        Some c \<Rightarrow> c
      | None \<Rightarrow> (nat \<lfloor>x / pow10 (dec_exponent x - 17)\<rfloor>, dec_exponent x))"

text \<open>
  The layout of the digits \<open>ds\<close> with the decimal point after the \<open>n\<close>-th of them: plain
  notation for \<open>-6 < n \<le> 21\<close>, exponent notation otherwise.
\<close>

definition layout :: "string \<Rightarrow> int \<Rightarrow> string" where
  "layout ds n =
     (if int (length ds) \<le> n \<and> n \<le> 21
      then ds @ replicate (nat (n - int (length ds))) (CHR ''0'')
      else if 0 < n \<and> n \<le> 21 then take (nat n) ds @ ''.'' @ drop (nat n) ds
      else if - 6 < n \<and> n \<le> 0 then ''0.'' @ replicate (nat (- n)) (CHR ''0'') @ ds
      else (if length ds = 1 then ds else take 1 ds @ ''.'' @ drop 1 ds)
           @ ''e'' @ (if n - 1 < 0 then ''-'' else ''+'') @ digits (nat \<bar>n - 1\<bar>))"

definition posToString :: "rat \<Rightarrow> string" where
  "posToString x = layout (digits (fst (shortest x))) (snd (shortest x))"

text \<open>\<^verbatim>\<open>Number::toString\<close> in radix 10.\<close>

fun numToString :: "jsnum \<Rightarrow> string" where
  "numToString NaN = ''NaN''"
| "numToString PInf = ''Infinity''"
| "numToString NInf = ''-Infinity''"
| "numToString (Fin q) =
     (if q = 0 then ''0'' else if q < 0 then ''-'' @ posToString (- q) else posToString q)"

text \<open>
  \<^verbatim>\<open>x.toFixed(1)\<close>: a value that is not finite, or of magnitude at least \<open>10\<^sup>2\<^sup>1\<close>, prints as
  \<^verbatim>\<open>toString\<close> does; otherwise the nearest multiple of \<open>1/10\<close> of the exact value (a tie
  going to the larger magnitude) is printed with one digit after the point.
\<close>

definition fixed1 :: "string \<Rightarrow> string" where
  "fixed1 m0 =
     (if length m0 \<le> 1
      then take 1 (replicate (2 - length m0) (CHR ''0'') @ m0) @ ''.''
           @ drop 1 (replicate (2 - length m0) (CHR ''0'') @ m0)
      else take (length m0 - 1) m0 @ ''.'' @ drop (length m0 - 1) m0)"

fun toFixed1 :: "jsnum \<Rightarrow> string" where
  "toFixed1 (Fin q) =
     (if q < 0 then ''-'' else '''')
     @ (if 10 ^ 21 \<le> \<bar>q\<bar> then numToString (Fin \<bar>q\<bar>)
        else fixed1 (digits (nat \<lfloor>\<bar>q\<bar> * 10 + 1 / 2\<rfloor>)))"
| "toFixed1 x = numToString x"

subsection \<open>Strings to numbers\<close>

definition is_digit :: "char \<Rightarrow> bool" where
  "is_digit c = (c \<in> set ''0123456789'')"

definition digit_val :: "char \<Rightarrow> nat" where
  "digit_val c = of_char c - 48"

definition digits_to_nat :: "string \<Rightarrow> nat" where
  "digits_to_nat ds = foldl (\<lambda>a c. 10 * a + digit_val c) 0 ds"

text \<open>
  The white space that \<^verbatim>\<open>parseFloat\<close> and \<^verbatim>\<open>ToNumber\<close> strip, each character in UTF-8:
  TAB, LF, VT, FF, CR, space, U+00A0, U+1680, U+2000 to U+200A, U+2028, U+2029, U+202F,
  U+205F, U+3000 and U+FEFF.
\<close>

definition white_space :: "string list" where
  "white_space =
     [[CHR 0x09], [CHR 0x0A], [CHR 0x0B], [CHR 0x0C], [CHR 0x0D], [CHR 0x20],
      [CHR 0xC2, CHR 0xA0], [CHR 0xE1, CHR 0x9A, CHR 0x80],
      [CHR 0xE2, CHR 0x80, CHR 0x80], [CHR 0xE2, CHR 0x80, CHR 0x81],
      [CHR 0xE2, CHR 0x80, CHR 0x82], [CHR 0xE2, CHR 0x80, CHR 0x83],
      [CHR 0xE2, CHR 0x80, CHR 0x84], [CHR 0xE2, CHR 0x80, CHR 0x85],
      [CHR 0xE2, CHR 0x80, CHR 0x86], [CHR 0xE2, CHR 0x80, CHR 0x87],
      [CHR 0xE2, CHR 0x80, CHR 0x88], [CHR 0xE2, CHR 0x80, CHR 0x89],
      [CHR 0xE2, CHR 0x80, CHR 0x8A], [CHR 0xE2, CHR 0x80, CHR 0xA8],
      [CHR 0xE2, CHR 0x80, CHR 0xA9], [CHR 0xE2, CHR 0x80, CHR 0xAF],
      [CHR 0xE2, CHR 0x81, CHR 0x9F], [CHR 0xE3, CHR 0x80, CHR 0x80],
      [CHR 0xEF, CHR 0xBB, CHR 0xBF]]"

text \<open>The length in bytes of the white space character at the head (at the end), or 0.\<close>

definition ws_at_start :: "string \<Rightarrow> nat" where
  "ws_at_start s = (case find (\<lambda>w. prefix w s) white_space of None \<Rightarrow> 0 | Some w \<Rightarrow> length w)"

definition ws_at_end :: "string \<Rightarrow> nat" where
  "ws_at_end s = (case find (\<lambda>w. suffix w s) white_space of None \<Rightarrow> 0 | Some w \<Rightarrow> length w)"

function trim_start :: "string \<Rightarrow> string" where
  "trim_start s =
     (if s \<noteq> [] \<and> 0 < ws_at_start s then trim_start (drop (ws_at_start s) s) else s)"
  by pat_completeness auto
termination
  by (relation "measure length") auto

function trim_end :: "string \<Rightarrow> string" where
  "trim_end s =
     (if s \<noteq> [] \<and> 0 < ws_at_end s then trim_end (take (length s - ws_at_end s) s) else s)"
  by pat_completeness auto
termination
  by (relation "measure length") auto

declare trim_start.simps [simp del] trim_end.simps [simp del]

text \<open>
  An optional exponent part at the head of a string: \<^verbatim>\<open>e\<close> or \<^verbatim>\<open>E\<close>, an optional sign and
  at least one digit. Without the digits nothing is consumed.
\<close>

definition exponent_digits :: "string \<Rightarrow> string" where
  "exponent_digits r =
     (if r \<noteq> [] \<and> (hd r = CHR ''-'' \<or> hd r = CHR ''+'') then tl r else r)"

definition parse_exponent :: "string \<Rightarrow> int \<times> string" where
  "parse_exponent s =
     (if s \<noteq> [] \<and> (hd s = CHR ''e'' \<or> hd s = CHR ''E'')
         \<and> takeWhile is_digit (exponent_digits (tl s)) \<noteq> []
      then ((if tl s \<noteq> [] \<and> hd (tl s) = CHR ''-''
             then - int (digits_to_nat (takeWhile is_digit (exponent_digits (tl s))))
             else int (digits_to_nat (takeWhile is_digit (exponent_digits (tl s))))),
            dropWhile is_digit (exponent_digits (tl s)))
      else (0, s))"

text \<open>The double nearest to \<open>m * 10\<^sup>s\<^sup>c\<close>.\<close>

definition decimal_value :: "nat \<Rightarrow> int \<Rightarrow> jsnum" where
  "decimal_value m sc =
     F64 (if 0 \<le> sc then of_nat m * 10 ^ nat sc else of_nat m / 10 ^ nat (- sc))"

text \<open>
  The longest prefix that is a \<^verbatim>\<open>StrUnsignedDecimalLiteral\<close> (\<^verbatim>\<open>Infinity\<close>, or digits with an
  optional fraction and exponent, or a fraction starting with the point), with its value
  and the rest of the string: the integer digits \<open>ip\<close>, the fraction digits \<open>fp\<close>, then
  the exponent.
\<close>

definition parse_digits :: "string \<Rightarrow> string \<Rightarrow> string \<Rightarrow> (jsnum \<times> string) option" where
  "parse_digits ip fp r =
     (if ip = [] \<and> fp = [] then None
      else Some (decimal_value (digits_to_nat (ip @ fp))
                   (fst (parse_exponent r) - int (length fp)),
                 snd (parse_exponent r)))"

definition parse_fraction :: "string \<Rightarrow> string \<Rightarrow> (jsnum \<times> string) option" where
  "parse_fraction ip r =
     (if r \<noteq> [] \<and> hd r = CHR ''.''
      then parse_digits ip (takeWhile is_digit (tl r)) (dropWhile is_digit (tl r))
      else parse_digits ip [] r)"

definition parse_unsigned :: "string \<Rightarrow> (jsnum \<times> string) option" where
  "parse_unsigned s =
     (if prefix ''Infinity'' s then Some (PInf, drop 8 s)
      else parse_fraction (takeWhile is_digit s) (dropWhile is_digit s))"

definition parse_signed :: "string \<Rightarrow> (jsnum \<times> string) option" where
  "parse_signed s =
     (if s \<noteq> [] \<and> hd s = CHR ''+'' then parse_unsigned (tl s)
      else if s \<noteq> [] \<and> hd s = CHR ''-'' then
        (case parse_unsigned (tl s) of None \<Rightarrow> None | Some (v, r) \<Rightarrow> Some (num_neg v, r))
      else parse_unsigned s)"

text \<open>
  \<^verbatim>\<open>parseFloat\<close> of a string: leading white space is dropped, the longest numeric prefix is
  the value, and \<^verbatim>\<open>NaN\<close> is returned where there is none.
\<close>

definition parseFloat_str :: "string \<Rightarrow> jsnum" where
  "parseFloat_str s =
     (case parse_signed (trim_start s) of None \<Rightarrow> NaN | Some (v, r) \<Rightarrow> v)"

text \<open>
  \<^verbatim>\<open>parseFloat\<close> converts its argument to a string first. A number printed and parsed
  again is the number itself; \<^verbatim>\<open>undefined\<close>, \<^verbatim>\<open>null\<close>, \<^verbatim>\<open>true\<close> and \<^verbatim>\<open>false\<close> print as words
  that have no numeric prefix.
\<close>

fun parseFloat :: "jsval \<Rightarrow> jsnum" where
  "parseFloat (JStr s) = parseFloat_str s"
| "parseFloat (JNum x) = x"
| "parseFloat v = NaN"

text \<open>Digits in a radix up to 16, for the literals \<^verbatim>\<open>0x..\<close>, \<^verbatim>\<open>0o..\<close> and \<^verbatim>\<open>0b..\<close>.\<close>

definition radix_val :: "char \<Rightarrow> nat" where
  "radix_val c =
     (if is_digit c then digit_val c
      else if c \<in> set ''abcdef'' then of_char c - 87
      else if c \<in> set ''ABCDEF'' then of_char c - 55
      else 16)"

definition parse_radix :: "nat \<Rightarrow> string \<Rightarrow> jsnum" where
  "parse_radix b ds =
     (if ds \<noteq> [] \<and> list_all (\<lambda>c. radix_val c < b) ds
      then F64 (of_nat (foldl (\<lambda>a c. b * a + radix_val c) 0 ds))
      else NaN)"

text \<open>
  \<^verbatim>\<open>ToNumber\<close> of a string: white space is trimmed at both ends, the empty string is 0, and
  the whole of what is left must be a numeric literal.
\<close>

definition whole_literal :: "string \<Rightarrow> jsnum" where
  "whole_literal t =
     (if t = [] then Fin 0
      else if prefix ''0x'' t \<or> prefix ''0X'' t then parse_radix 16 (drop 2 t)
      else if prefix ''0o'' t \<or> prefix ''0O'' t then parse_radix 8 (drop 2 t)
      else if prefix ''0b'' t \<or> prefix ''0B'' t then parse_radix 2 (drop 2 t)
      else (case parse_signed t of
              None \<Rightarrow> NaN
            | Some (v, r) \<Rightarrow> if r = [] then v else NaN))"

definition ToNumber_str :: "string \<Rightarrow> jsnum" where
  "ToNumber_str s = whole_literal (trim_end (trim_start s))"

fun ToNumber :: "jsval \<Rightarrow> jsnum" where
  "ToNumber JUndefined = NaN"
| "ToNumber JNull = Fin 0"
| "ToNumber (JBool b) = (if b then Fin 1 else Fin 0)"
| "ToNumber (JNum x) = x"
| "ToNumber (JStr s) = ToNumber_str s"

text \<open>\<^verbatim>\<open>ToString\<close>, as string concatenation applies it to a value.\<close>

fun ToString :: "jsval \<Rightarrow> string" where
  "ToString JUndefined = ''undefined''"
| "ToString JNull = ''null''"
| "ToString (JBool b) = (if b then ''true'' else ''false'')"
| "ToString (JNum x) = numToString x"
| "ToString (JStr s) = s"

text \<open>
  Truthiness, as \<^verbatim>\<open>if (v)\<close> and \<^verbatim>\<open>v && ...\<close> test it: \<^verbatim>\<open>undefined\<close>, \<^verbatim>\<open>null\<close>, \<^verbatim>\<open>false\<close>, zero,
  \<^verbatim>\<open>NaN\<close> and the empty string are falsy, every other value is truthy.
\<close>

fun truthy :: "jsval \<Rightarrow> bool" where
  "truthy JUndefined = False"
| "truthy JNull = False"
| "truthy (JBool b) = b"
| "truthy (JNum x) = (x \<noteq> Fin 0 \<and> x \<noteq> NaN)"
| "truthy (JStr s) = (s \<noteq> [])"

section \<open>Log entries and tips\<close>

text \<open>
  An entry of the log is an object; a field that the object does not have reads as
  \<^verbatim>\<open>undefined\<close>. A tip is an object with the four string fields that the page renders.
\<close>

record entry =
  bmi :: jsval
  sleepHours :: jsval
  heartRate :: jsval
  cycleTracking :: jsval
  cycleLength :: jsval

record tip =
  type :: string
  icon :: string
  title :: string
  body :: string

subsection \<open>The tips of \<^verbatim>\<open>generatePersonalTips\<close>\<close>

text \<open>
  One definition for each object literal that the function pushes, in the order of the
  source. Characters outside ASCII (the icons and the dash) are written as their UTF-8
  bytes. The argument is the value that the source concatenates into the body.
\<close>

definition tip_bmi_underweight :: "jsnum \<Rightarrow> tip" where
  \<open>tip_bmi_underweight b =
     \<lparr>type = ''warning'',
      icon = [CHR 0xF0, CHR 0x9F, CHR 0x8D, CHR 0x8E],
      title = ''Nutrition Power-Up Needed!'',
      body =
        ''Your BMI ('' @
        numToString b @
        '') shows you might be underweight. Try adding more nutrient-rich '' @
        ''foods to your daily rations '' @
        [CHR 0xE2, CHR 0x80, CHR 0x94] @
        '' think nuts, avocados, whole grains, and lean proteins. Small, frequent '' @
        ''meals can help you gain healthy weight. Consider consulting a healer '' @
        ''(doctor) for a personalised nutrition quest!''\<rparr>\<close>

definition tip_bmi_healthy :: "jsnum \<Rightarrow> tip" where
  \<open>tip_bmi_healthy b =
     \<lparr>type = ''good'',
      icon = [CHR 0xF0, CHR 0x9F, CHR 0x8F, CHR 0x86],
      title = ''BMI '' @
        [CHR 0xE2, CHR 0x80, CHR 0x94] @
        '' Perfectly Balanced!'',
      body =
        ''Amazing work, hero! Your BMI ('' @
        numToString b @
        '') is in the healthy range. Keep up your current eating and exercise '' @
        ''habits to maintain this awesome stat. You've unlocked the "Balance '' @
        ''Master" achievement in our hearts!''\<rparr>\<close>

definition tip_bmi_overweight :: "jsnum \<Rightarrow> tip" where
  \<open>tip_bmi_overweight b =
     \<lparr>type = ''warning'',
      icon = [CHR 0xF0, CHR 0x9F, CHR 0x8F, CHR 0x83],
      title = ''Training Montage Recommended!'',
      body =
        ''Your BMI ('' @
        numToString b @
        '') is slightly above the healthy range. Time for a training montage! '' @
        ''Try adding 30 minutes of movement to your daily routine '' @
        [CHR 0xE2, CHR 0x80, CHR 0x94] @
        '' walking, swimming, cycling, or dancing all count. Small changes '' @
        ''to portion sizes can also make a big difference on this quest.''\<rparr>\<close>

definition tip_bmi_obese :: "jsnum \<Rightarrow> tip" where
  \<open>tip_bmi_obese b =
     \<lparr>type = ''alert'',
      icon = [CHR 0xE2, CHR 0x9A, CHR 0xA0, CHR 0xEF, CHR 0xB8, CHR 0x8F],
      title = ''Critical Quest: Weight Management'',
      body =
        ''Your BMI ('' @
        numToString b @
        '') is in the obese range. This is a tough boss battle, but you can '' @
        ''win! Start with small goals '' @
        [CHR 0xE2, CHR 0x80, CHR 0x94] @
        '' even a 5% weight reduction brings huge health bonuses. Please consider '' @
        ''visiting a healer (doctor) who can create a personalised strategy '' @
        ''for your journey.''\<rparr>\<close>

definition tip_sleep_low :: "jsnum \<Rightarrow> tip" where
  \<open>tip_sleep_low a =
     \<lparr>type = ''alert'',
      icon = [CHR 0xF0, CHR 0x9F, CHR 0x98, CHR 0xB4],
      title = ''Critical! Sleep HP is Low!'',
      body =
        ''You're averaging only '' @
        toFixed1 a @
        '' hours of sleep. Your character needs 7-9 hours to fully regenerate! '' @
        ''Poor sleep weakens your immune defence, slows down XP gain, and '' @
        ''makes boss fights (daily challenges) much harder. Try setting a '' @
        ''"lights out" alarm 8 hours before you need to wake up.''\<rparr>\<close>

definition tip_sleep_almost :: "jsnum \<Rightarrow> tip" where
  \<open>tip_sleep_almost a =
     \<lparr>type = ''warning'',
      icon = [CHR 0xF0, CHR 0x9F, CHR 0x9B, CHR 0x8C],
      title = ''Sleep Buff Almost There!'',
      body =
        ''You're getting '' @
        toFixed1 a @
        '' hours on average '' @
        [CHR 0xE2, CHR 0x80, CHR 0x94] @
        '' close to the recommended 7-9 hours! Try going to bed just 30 minutes '' @
        ''earlier. Avoid screen time (the blue light debuff!) before bed, '' @
        ''and keep your sleeping chamber cool and dark for maximum rest bonus.''\<rparr>\<close>

definition tip_sleep_good :: "jsnum \<Rightarrow> tip" where
  \<open>tip_sleep_good a =
     \<lparr>type = ''good'',
      icon = [CHR 0xE2, CHR 0x9C, CHR 0xA8],
      title = ''Sleep Master Achievement!'',
      body =
        ''Excellent! You're averaging '' @
        toFixed1 a @
        '' hours of sleep '' @
        [CHR 0xE2, CHR 0x80, CHR 0x94] @
        '' right in the sweet spot! Quality rest gives you bonus HP regeneration, '' @
        ''better focus stats, and stronger immune defence. Keep this up, champion!''\<rparr>\<close>

definition tip_sleep_over :: "jsnum \<Rightarrow> tip" where
  \<open>tip_sleep_over a =
     \<lparr>type = ''warning'',
      icon = [CHR 0xE2, CHR 0x8F, CHR 0xB0],
      title = ''Oversleep Warning!'',
      body =
        ''You're averaging '' @
        toFixed1 a @
        '' hours '' @
        [CHR 0xE2, CHR 0x80, CHR 0x94] @
        '' that's more than the recommended 7-9 hours. Too much sleep can '' @
        ''actually lower your energy stats! If you're feeling constantly tired '' @
        ''despite long rest, consider checking with a healer, as it might '' @
        ''signal an underlying debuff.''\<rparr>\<close>

definition tip_hr_low :: "jsnum \<Rightarrow> tip" where
  \<open>tip_hr_low hr =
     \<lparr>type = ''info'',
      icon = [CHR 0xF0, CHR 0x9F, CHR 0x92, CHR 0x93],
      title = ''Low Resting Heart Rate'',
      body =
        ''Your average heart rate is '' @
        numToString hr @
        '' bpm. If you're athletic, this could be a sign of great cardiovascular '' @
        ''fitness '' @
        [CHR 0xE2, CHR 0x80, CHR 0x94] @
        '' an S-tier passive ability! However, if you're not very active or '' @
        ''feel dizzy/tired, it's worth mentioning to your healer (doctor).''\<rparr>\<close>

definition tip_hr_normal :: "jsnum \<Rightarrow> tip" where
  \<open>tip_hr_normal hr =
     \<lparr>type = ''good'',
      icon = [CHR 0xF0, CHR 0x9F, CHR 0x92, CHR 0x9A],
      title = ''Heart Rate '' @
        [CHR 0xE2, CHR 0x80, CHR 0x94] @
        '' Optimal Zone!'',
      body =
        ''Your average heart rate of '' @
        numToString hr @
        '' bpm is in the normal resting range (60-100 bpm). Your heart is '' @
        ''performing well! Regular cardio exercise (the "Endurance Training" '' @
        ''side quest) can help keep it even stronger.''\<rparr>\<close>

definition tip_hr_high :: "jsnum \<Rightarrow> tip" where
  \<open>tip_hr_high hr =
     \<lparr>type = ''alert'',
      icon = [CHR 0xE2, CHR 0x9D, CHR 0xA4, CHR 0xEF, CHR 0xB8, CHR 0x8F, CHR 0xE2, CHR 0x80, CHR 0x8D, CHR 0xF0, CHR 0x9F, CHR 0x94, CHR 0xA5],
      title = ''Heart Rate Running High!'',
      body =
        ''Your average heart rate is '' @
        numToString hr @
        '' bpm, which is above the normal resting range. Stress, caffeine, '' @
        ''and lack of exercise can cause this. Try deep breathing exercises '' @
        ''(the "Meditation" skill), reduce caffeine potions, and add light '' @
        ''exercise to your daily routine. If it stays high, please visit a '' @
        ''healer!''\<rparr>\<close>

definition tip_cycle_active :: "tip" where
  \<open>tip_cycle_active =
     \<lparr>type = ''info'',
      icon = [CHR 0xF0, CHR 0x9F, CHR 0x8C, CHR 0xB8],
      title = ''Cycle Tracking Active!'',
      body =
        ''Great job tracking your cycle! Regular tracking helps you understand '' @
        ''your body's patterns and predict changes in energy, mood, and physical '' @
        ''performance. During your period, your iron levels may drop '' @
        [CHR 0xE2, CHR 0x80, CHR 0x94] @
        '' combat this with iron-rich foods like spinach, red meat, or fortified '' @
        ''cereals (HP restoration items!).''\<rparr>\<close>

definition tip_cycle_length :: "jsval \<Rightarrow> tip" where
  \<open>tip_cycle_length v =
     \<lparr>type = ''warning'',
      icon = [CHR 0xF0, CHR 0x9F, CHR 0x93, CHR 0x8A],
      title = ''Cycle Length '' @
        [CHR 0xE2, CHR 0x80, CHR 0x94] @
        '' Worth Checking'',
      body =
        ''Your recorded cycle length of '' @
        ToString v @
        '' days is outside the typical 21-35 day range. This isn't always '' @
        ''a problem (everyone's different!), but if it's consistently irregular, '' @
        ''it's a good idea to chat with a healer (doctor) about it. They can '' @
        ''check for any hidden debuffs.''\<rparr>\<close>

definition tip_streak :: "nat \<Rightarrow> tip" where
  \<open>tip_streak n =
     \<lparr>type = ''good'',
      icon = [CHR 0xF0, CHR 0x9F, CHR 0x94, CHR 0xA5],
      title = ''Streak Bonus Active!'',
      body =
        ''You've logged '' @
        digits n @
        '' quests so far '' @
        [CHR 0xE2, CHR 0x80, CHR 0x94] @
        '' consistency is the most powerful buff in the game! Regular tracking '' @
        ''helps you spot trends, catch problems early, and see your progress '' @
        ''over time. Keep logging to unlock more achievements!''\<rparr>\<close>

section \<open>The tip generator\<close>

subsection \<open>The averages\<close>

text \<open>The four accumulators of the loop over the log.\<close>

record totals =
  totalSleep :: jsnum
  sleepCount :: nat
  totalHR :: jsnum
  hrCount :: nat

definition totals0 :: totals where
  "totals0 = \<lparr>totalSleep = Fin 0, sleepCount = 0, totalHR = Fin 0, hrCount = 0\<rparr>"

text \<open>The body of the loop: a truthy field is parsed, added and counted.\<close>

definition loop_body :: "entry \<Rightarrow> totals \<Rightarrow> totals" where
  "loop_body e s =
     (let s1 = (if truthy (sleepHours e)
                then s\<lparr>totalSleep := num_add (totalSleep s) (parseFloat (sleepHours e)),
                       sleepCount := sleepCount s + 1\<rparr>
                else s);
          s2 = (if truthy (heartRate e)
                then s1\<lparr>totalHR := num_add (totalHR s1) (parseFloat (heartRate e)),
                        hrCount := hrCount s1 + 1\<rparr>
                else s1)
      in s2)"

text \<open>\<^verbatim>\<open>for (var i = 0; i < questLog.length; i++)\<close>, from index \<open>i\<close> on.\<close>

function sum_loop :: "entry list \<Rightarrow> nat \<Rightarrow> totals \<Rightarrow> totals" where
  "sum_loop questLog i s =
     (if i < length questLog then sum_loop questLog (i + 1) (loop_body (questLog ! i) s) else s)"
  by pat_completeness auto
termination
  by (relation "measure (\<lambda>(questLog, i, s). length questLog - i)") auto

declare sum_loop.simps [simp del]

text \<open>
  The two averages; \<^verbatim>\<open>null\<close> is \<open>None\<close>. A count is a number of entries, far below \<open>2\<^sup>5\<^sup>3\<close>,
  so it is exact as a number.
\<close>

definition avgSleep :: "entry list \<Rightarrow> jsnum option" where
  "avgSleep questLog =
     (let s = sum_loop questLog 0 totals0
      in if 0 < sleepCount s
         then Some (num_div (totalSleep s) (Fin (of_nat (sleepCount s)))) else None)"

definition avgHR :: "entry list \<Rightarrow> jsnum option" where
  "avgHR questLog =
     (let s = sum_loop questLog 0 totals0
      in if 0 < hrCount s
         then Some (num_div (totalHR s) (Fin (of_nat (hrCount s)))) else None)"

subsection \<open>The five sections\<close>

text \<open>
  Each section of the function takes the array \<^verbatim>\<open>tips\<close> built so far and returns it with
  the tips it pushes, if any.
\<close>

definition bmi_section :: "entry \<Rightarrow> tip list \<Rightarrow> tip list" where
  "bmi_section latest tips =
     (if truthy (bmi latest) \<and> bmi latest \<noteq> JStr ''--'' then
        (let b = parseFloat (bmi latest)
         in if num_lt b (Fin 18.5) then tips @ [tip_bmi_underweight b]
            else if num_ge b (Fin 18.5) \<and> num_lt b (Fin 25) then tips @ [tip_bmi_healthy b]
            else if num_ge b (Fin 25) \<and> num_lt b (Fin 30) then tips @ [tip_bmi_overweight b]
            else tips @ [tip_bmi_obese b])
      else tips)"

definition sleep_section :: "jsnum option \<Rightarrow> tip list \<Rightarrow> tip list" where
  "sleep_section avg tips =
     (case avg of
        None \<Rightarrow> tips
      | Some a \<Rightarrow>
          if num_lt a (Fin 6) then tips @ [tip_sleep_low a]
          else if num_lt a (Fin 7) then tips @ [tip_sleep_almost a]
          else if num_le a (Fin 9) then tips @ [tip_sleep_good a]
          else tips @ [tip_sleep_over a])"

definition heart_rate_section :: "jsnum option \<Rightarrow> tip list \<Rightarrow> tip list" where
  "heart_rate_section avg tips =
     (case avg of
        None \<Rightarrow> tips
      | Some a \<Rightarrow>
          (let hr = Math_round a
           in if num_lt hr (Fin 60) then tips @ [tip_hr_low hr]
              else if num_le hr (Fin 100) then tips @ [tip_hr_normal hr]
              else tips @ [tip_hr_high hr]))"

definition cycle_section :: "entry \<Rightarrow> tip list \<Rightarrow> tip list" where
  "cycle_section latest tips =
     (if truthy (cycleTracking latest) then
        (let tips1 = tips @ [tip_cycle_active]
         in if truthy (cycleLength latest)
               \<and> (num_lt (ToNumber (cycleLength latest)) (Fin 21)
                    \<or> num_gt (ToNumber (cycleLength latest)) (Fin 35))
            then tips1 @ [tip_cycle_length (cycleLength latest)]
            else tips1)
      else tips)"

definition consistency_section :: "'a list \<Rightarrow> tip list \<Rightarrow> tip list" where
  "consistency_section questLog tips =
     (if 3 \<le> length questLog then tips @ [tip_streak (length questLog)] else tips)"

subsection \<open>\<^verbatim>\<open>generatePersonalTips\<close>\<close>

definition generatePersonalTips :: "entry list \<Rightarrow> tip list" where
  "generatePersonalTips questLog =
     (let tips = []
      in if length questLog = 0 then tips
         else
           let latest = questLog ! (length questLog - 1);
               tips = bmi_section latest tips;
               tips = sleep_section (avgSleep questLog) tips;
               tips = heart_rate_section (avgHR questLog) tips;
               tips = cycle_section latest tips;
               tips = consistency_section questLog tips
           in tips)"

subsection \<open>Arrays with elements that are no objects\<close>

text \<open>
  An element of the array may also be \<^verbatim>\<open>null\<close> or \<^verbatim>\<open>undefined\<close>, where reading a field
  throws a \<^verbatim>\<open>TypeError\<close>. (A number, a string or a boolean as an element reads as an object
  without fields.) The function then runs as follows: the loop reads a field of every
  element, in order, and the sections read fields of the last one.
\<close>

datatype error = TypeError

datatype item = Obj entry | Null

definition loop_body_item :: "item \<Rightarrow> totals \<Rightarrow> error + totals" where
  "loop_body_item x s = (case x of Null \<Rightarrow> Inl TypeError | Obj e \<Rightarrow> Inr (loop_body e s))"

function sum_loop_items :: "item list \<Rightarrow> nat \<Rightarrow> totals \<Rightarrow> error + totals" where
  "sum_loop_items questLog i s =
     (if i < length questLog then
        (case loop_body_item (questLog ! i) s of
           Inl err \<Rightarrow> Inl err
         | Inr s' \<Rightarrow> sum_loop_items questLog (i + 1) s')
      else Inr s)"
  by pat_completeness auto
termination
  by (relation "measure (\<lambda>(questLog, i, s). length questLog - i)") auto

declare sum_loop_items.simps [simp del]

definition generatePersonalTips_items :: "item list \<Rightarrow> error + tip list" where
  "generatePersonalTips_items questLog =
     (let tips = []
      in if length questLog = 0 then Inr tips
         else
           (case sum_loop_items questLog 0 totals0 of
              Inl err \<Rightarrow> Inl err
            | Inr s \<Rightarrow>
                (case questLog ! (length questLog - 1) of
                   Null \<Rightarrow> Inl TypeError
                 | Obj latest \<Rightarrow>
                     let avgSleep = (if 0 < sleepCount s
                                     then Some (num_div (totalSleep s) (Fin (of_nat (sleepCount s))))
                                     else None);
                         avgHR = (if 0 < hrCount s
                                  then Some (num_div (totalHR s) (Fin (of_nat (hrCount s))))
                                  else None);
                         tips = bmi_section latest tips;
                         tips = sleep_section avgSleep tips;
                         tips = heart_rate_section avgHR tips;
                         tips = cycle_section latest tips;
                         tips = consistency_section questLog tips
                     in Inr tips)))"

section \<open>Notions used in the statements\<close>

text \<open>An entry with no field at all; the examples below set fields of it.\<close>

definition blank :: entry where
  "blank = \<lparr>bmi = JUndefined, sleepHours = JUndefined, heartRate = JUndefined,
             cycleTracking = JUndefined, cycleLength = JUndefined\<rparr>"

text \<open>
  The values that the loop adds up: the parsed \<^verbatim>\<open>sleepHours\<close> (\<^verbatim>\<open>heartRate\<close>) of the entries
  where the field is truthy, in the order of the log.
\<close>

definition sleep_values :: "entry list \<Rightarrow> jsnum list" where
  "sleep_values questLog =
     map (\<lambda>e. parseFloat (sleepHours e)) (filter (\<lambda>e. truthy (sleepHours e)) questLog)"

definition hr_values :: "entry list \<Rightarrow> jsnum list" where
  "hr_values questLog =
     map (\<lambda>e. parseFloat (heartRate e)) (filter (\<lambda>e. truthy (heartRate e)) questLog)"

text \<open>
  The mean of a list of numbers as the source computes it: summed from 0 in the order of
  the list, then divided by the count, every operation rounded to the nearest double.
\<close>

definition num_mean :: "jsnum list \<Rightarrow> jsnum option" where
  "num_mean vs =
     (if vs = [] then None
      else Some (num_div (foldl num_add (Fin 0) vs) (Fin (of_nat (length vs)))))"

text \<open>
  A list of finite values whose mean the source computes exactly: no partial sum and not
  the quotient is rounded.
\<close>

fun exact_sum :: "rat \<Rightarrow> rat list \<Rightarrow> bool" where
  "exact_sum a [] = True"
| "exact_sum a (q # qs) = (F64 (a + q) = Fin (a + q) \<and> exact_sum (a + q) qs)"

definition exact_mean :: "rat list \<Rightarrow> bool" where
  "exact_mean qs =
     (exact_sum 0 qs
      \<and> F64 (sum_list qs / of_nat (length qs)) = Fin (sum_list qs / of_nat (length qs)))"

text \<open>
  The specification's reading of a field that is present: the entry has the field, with
  a value (not \<^verbatim>\<open>null\<close>).
\<close>

definition spec_present :: "jsval \<Rightarrow> bool" where
  "spec_present v = (v \<noteq> JUndefined \<and> v \<noteq> JNull)"

text \<open>
  The specification's \<^verbatim>\<open>avgSleep\<close>: the mean of \<^verbatim>\<open>sleepHours\<close> over exactly the entries where
  the field is present.
\<close>

definition spec_avgSleep :: "entry list \<Rightarrow> jsnum option" where
  "spec_avgSleep questLog =
     num_mean (map (\<lambda>e. parseFloat (sleepHours e))
                 (filter (\<lambda>e. spec_present (sleepHours e)) questLog))"

text \<open>
  The specification's treatment of a malformed value: a field whose value fails numeric
  coercion counts as absent.
\<close>

definition spec_absent_if_malformed :: "jsval \<Rightarrow> jsval" where
  "spec_absent_if_malformed v = (if parseFloat v = NaN then JUndefined else v)"

definition spec_sanitize :: "entry \<Rightarrow> entry" where
  "spec_sanitize e =
     e\<lparr>bmi := spec_absent_if_malformed (bmi e),
       sleepHours := spec_absent_if_malformed (sleepHours e),
       heartRate := spec_absent_if_malformed (heartRate e)\<rparr>"

text \<open>What the code does treat as absent: a falsy value.\<close>

definition absent_if_falsy :: "jsval \<Rightarrow> jsval" where
  "absent_if_falsy v = (if truthy v then v else JUndefined)"

definition drop_falsy :: "entry \<Rightarrow> entry" where
  "drop_falsy e =
     e\<lparr>bmi := absent_if_falsy (bmi e),
       sleepHours := absent_if_falsy (sleepHours e),
       heartRate := absent_if_falsy (heartRate e),
       cycleTracking := absent_if_falsy (cycleTracking e),
       cycleLength := absent_if_falsy (cycleLength e)\<rparr>"

text \<open>
  The category of a tip, read off its headline: the four BMI tips, the four sleep tips,
  the three heart-rate tips, the two cycle tips and the consistency tip.
\<close>

definition is_bmi_tip :: "tip \<Rightarrow> bool" where
  "is_bmi_tip t =
     (title t \<in> set [''Nutrition Power-Up Needed!'',
                      ''BMI '' @ [CHR 0xE2, CHR 0x80, CHR 0x94] @ '' Perfectly Balanced!'',
                      ''Training Montage Recommended!'',
                      ''Critical Quest: Weight Management''])"

definition is_sleep_tip :: "tip \<Rightarrow> bool" where
  "is_sleep_tip t =
     (title t \<in> set [''Critical! Sleep HP is Low!'', ''Sleep Buff Almost There!'',
                      ''Sleep Master Achievement!'', ''Oversleep Warning!''])"

definition is_hr_tip :: "tip \<Rightarrow> bool" where
  "is_hr_tip t =
     (title t \<in> set [''Low Resting Heart Rate'',
                      ''Heart Rate '' @ [CHR 0xE2, CHR 0x80, CHR 0x94] @ '' Optimal Zone!'',
                      ''Heart Rate Running High!''])"

definition is_cycle_tip :: "tip \<Rightarrow> bool" where
  "is_cycle_tip t =
     (title t \<in> set [''Cycle Tracking Active!'',
                      ''Cycle Length '' @ [CHR 0xE2, CHR 0x80, CHR 0x94] @ '' Worth Checking''])"

definition is_consistency_tip :: "tip \<Rightarrow> bool" where
  "is_consistency_tip t = (title t = ''Streak Bonus Active!'')"

text \<open>The position of a tip's category in the order of the sections.\<close>

definition category_rank :: "tip \<Rightarrow> nat" where
  "category_rank t =
     (if is_bmi_tip t then 0 else if is_sleep_tip t then 1 else if is_hr_tip t then 2
      else if is_cycle_tip t then 3 else 4)"

text \<open>
  A log of three entries whose last entry has every field: it produces a tip of every
  category.
\<close>

definition log_full :: "entry list" where
  "log_full =
     [blank, blank,
      blank\<lparr>bmi := JStr ''24.999'', sleepHours := JNum (Fin 7), heartRate := JNum (F64 59.6),
            cycleTracking := JBool True, cycleLength := JNum (Fin 40)\<rparr>]"

text \<open>Further example logs.\<close>

definition log_hr_high :: "entry list" where
  "log_hr_high = [blank\<lparr>heartRate := JStr ''120''\<rparr>, blank\<lparr>heartRate := JNum (Fin 101)\<rparr>]"

definition log_579 :: "entry list" where
  "log_579 = [blank\<lparr>sleepHours := JNum (Fin 5)\<rparr>, blank\<lparr>sleepHours := JNum (Fin 7)\<rparr>,
              blank\<lparr>sleepHours := JNum (Fin 9)\<rparr>]"

definition log_zero_sleep :: "entry list" where
  "log_zero_sleep = [blank\<lparr>sleepHours := JNum (Fin 0)\<rparr>, blank\<lparr>sleepHours := JNum (Fin 8)\<rparr>]"

definition log_short_sleep :: "entry list" where
  "log_short_sleep =
     [blank\<lparr>sleepHours := JStr ''5.5''\<rparr>, blank, blank\<lparr>sleepHours := JNum (Fin 6)\<rparr>]"

definition log_malformed :: "entry list" where
  "log_malformed = [blank\<lparr>sleepHours := JStr ''abc''\<rparr>, blank\<lparr>sleepHours := JNum (Fin 8)\<rparr>]"

definition log_all_malformed :: "entry list" where
  "log_all_malformed =
     [blank\<lparr>bmi := JStr ''n/a'', sleepHours := JStr ''abc'', heartRate := JBool True\<rparr>]"

definition log_sleep_rounded :: "entry list" where
  "log_sleep_rounded =
     [blank\<lparr>sleepHours := JStr ''5''\<rparr>, blank\<lparr>sleepHours := JStr ''5.6''\<rparr>,
      blank\<lparr>sleepHours := JStr ''8.7''\<rparr>, blank\<lparr>sleepHours := JStr ''8.7''\<rparr>]"

definition log_hr_rounded :: "entry list" where
  "log_hr_rounded =
     [blank\<lparr>heartRate := JStr ''97''\<rparr>, blank\<lparr>heartRate := JStr ''97.7''\<rparr>,
      blank\<lparr>heartRate := JStr ''103.6''\<rparr>, blank\<lparr>heartRate := JStr ''103.7''\<rparr>]"

definition log_hr_malformed :: "entry list" where
  "log_hr_malformed = [blank\<lparr>heartRate := JStr ''abc''\<rparr>]"

section \<open>Evaluation\<close>

text \<open>The equations by which closed terms are evaluated.\<close>

lemma floor_rat_numeral [simp]:
  "\<lfloor>(numeral a :: rat) / numeral b\<rfloor> = numeral a div numeral b"
  "\<lfloor>- ((numeral a :: rat) / numeral b)\<rfloor> = - numeral a div numeral b"
  using floor_divide_of_int_eq [of "numeral a" "numeral b", where ?'a = rat]
    floor_divide_of_int_eq [of "- numeral a" "numeral b", where ?'a = rat]
  by simp_all

lemmas num_eval =
  F64_def round_at_def pack_def quantum_def ilog2_def ilog2_adjust_def ilog2_near_def pow2_def
  pow10_def round_half_even_def nearest_even_def bit_length.simps dec_exponent_def
  dec_exponent_adjust_def dec_exponent_near_def nearer_def at_scale_def candidate_def
  shortest_def layout_def posToString_def digits.simps digit_char_def fixed1_def
  num_le_def num_ge_def num_gt_def

lemmas str_eval =
  parseFloat_str_def parse_signed_def parse_unsigned_def parse_fraction_def parse_digits_def
  decimal_value_def parse_exponent_def exponent_digits_def digits_to_nat_def digit_val_def
  is_digit_def trim_start.simps trim_end.simps ws_at_start_def ws_at_end_def white_space_def
  ToNumber_str_def whole_literal_def parse_radix_def radix_val_def suffix_to_prefix

section \<open>The loop and the sections\<close>

text \<open>The loop over the indices is a left fold of its body over the log.\<close>

lemma sum_loop_foldl:
  "sum_loop questLog i s = foldl (\<lambda>s e. loop_body e s) s (drop i questLog)"
proof (induction questLog i s rule: sum_loop.induct)
  case (1 questLog i s)
  show ?case
  proof (cases "i < length questLog")
    case True
    then have d: "drop i questLog = questLog ! i # drop (Suc i) questLog"
      by (simp add: Cons_nth_drop_Suc)
    from True 1 show ?thesis
      by (subst sum_loop.simps) (simp add: d)
  next
    case False
    then show ?thesis
      by (subst sum_loop.simps) simp
  qed
qed

lemma foldl_loop_body_sleep:
  "totalSleep (foldl (\<lambda>s e. loop_body e s) s es) = foldl num_add (totalSleep s) (sleep_values es)
   \<and> sleepCount (foldl (\<lambda>s e. loop_body e s) s es) = sleepCount s + length (sleep_values es)"
  by (induction es arbitrary: s) (simp_all add: sleep_values_def loop_body_def Let_def)

lemma foldl_loop_body_hr:
  "totalHR (foldl (\<lambda>s e. loop_body e s) s es) = foldl num_add (totalHR s) (hr_values es)
   \<and> hrCount (foldl (\<lambda>s e. loop_body e s) s es) = hrCount s + length (hr_values es)"
  by (induction es arbitrary: s) (simp_all add: hr_values_def loop_body_def Let_def)

lemma avgSleep_mean: "avgSleep questLog = num_mean (sleep_values questLog)"
  by (simp add: avgSleep_def num_mean_def sum_loop_foldl foldl_loop_body_sleep totals0_def Let_def)

lemma avgHR_mean: "avgHR questLog = num_mean (hr_values questLog)"
  by (simp add: avgHR_def num_mean_def sum_loop_foldl foldl_loop_body_hr totals0_def Let_def)

lemma num_add_NaN_right [simp]: "num_add x NaN = NaN"
  by (cases x) simp_all

lemma foldl_num_add_NaN: "foldl num_add NaN vs = NaN"
  by (induction vs) simp_all

lemma foldl_num_add_has_NaN: "NaN \<in> set vs \<Longrightarrow> foldl num_add a vs = NaN"
  by (induction vs arbitrary: a) (auto simp: foldl_num_add_NaN)

lemma foldl_num_add_exact:
  "exact_sum a qs \<Longrightarrow> foldl num_add (Fin a) (map Fin qs) = Fin (a + sum_list qs)"
  by (induction qs arbitrary: a) (simp_all add: add.assoc)

lemma num_mean_has_NaN: "NaN \<in> set vs \<Longrightarrow> num_mean vs = Some NaN"
  by (auto simp: num_mean_def foldl_num_add_has_NaN)

lemma num_mean_exact:
  "qs \<noteq> [] \<Longrightarrow> exact_mean qs \<Longrightarrow>
   num_mean (map Fin qs) = Some (Fin (sum_list qs / of_nat (length qs)))"
  by (simp add: num_mean_def exact_mean_def foldl_num_add_exact)

text \<open>On an array of objects the function with errors is the function without.\<close>

lemma sum_loop_items_Obj: "sum_loop_items (map Obj l) i s = Inr (sum_loop l i s)"
proof (induction l i s rule: sum_loop.induct)
  case (1 questLog i s)
  show ?case
  proof (cases "i < length questLog")
    case True
    with 1 show ?thesis
      by (subst sum_loop_items.simps, subst sum_loop.simps) (simp add: loop_body_item_def)
  next
    case False
    then show ?thesis
      by (subst sum_loop_items.simps, subst sum_loop.simps) simp
  qed
qed

lemma generatePersonalTips_items_Obj:
  "generatePersonalTips_items (map Obj questLog) = Inr (generatePersonalTips questLog)"
proof (cases "questLog = []")
  case True
  then show ?thesis
    by (simp add: generatePersonalTips_items_def generatePersonalTips_def)
next
  case False
  then have "map Obj questLog ! (length questLog - 1) = Obj (questLog ! (length questLog - 1))"
    by (intro nth_map) simp
  with False show ?thesis
    by (simp add: generatePersonalTips_items_def generatePersonalTips_def sum_loop_items_Obj
          avgSleep_def avgHR_def consistency_section_def Let_def)
qed

text \<open>An element that is \<^verbatim>\<open>null\<close> or \<^verbatim>\<open>undefined\<close> makes the loop throw.\<close>

lemma sum_loop_items_Null:
  "Null \<in> set (drop i questLog) \<Longrightarrow> sum_loop_items questLog i s = Inl TypeError"
proof (induction questLog i s rule: sum_loop_items.induct)
  case (1 questLog i s)
  from "1.prems" have lt: "i < length questLog"
    by (cases "i < length questLog") auto
  then have d: "drop i questLog = questLog ! i # drop (Suc i) questLog"
    by (simp add: Cons_nth_drop_Suc)
  show ?case
  proof (cases "questLog ! i")
    case Null
    with lt show ?thesis
      by (subst sum_loop_items.simps) (simp add: loop_body_item_def)
  next
    case (Obj e)
    with "1.prems" d have "Null \<in> set (drop (i + 1) questLog)"
      by auto
    with 1(1) [of "loop_body e s"] lt Obj show ?thesis
      by (subst sum_loop_items.simps) (simp add: loop_body_item_def)
  qed
qed

lemma generatePersonalTips_items_Null:
  "Null \<in> set questLog \<Longrightarrow> generatePersonalTips_items questLog = Inl TypeError"
  using sum_loop_items_Null [of 0 questLog totals0]
  by (auto simp: generatePersonalTips_items_def)

lemma bmi_section_append: "bmi_section e tips = tips @ bmi_section e []"
  by (simp add: bmi_section_def Let_def)

lemma sleep_section_append: "sleep_section a tips = tips @ sleep_section a []"
  by (simp add: sleep_section_def split: option.splits)

lemma heart_rate_section_append: "heart_rate_section a tips = tips @ heart_rate_section a []"
  by (simp add: heart_rate_section_def Let_def split: option.splits)

lemma cycle_section_append: "cycle_section e tips = tips @ cycle_section e []"
  by (auto simp: cycle_section_def Let_def)

lemma consistency_section_append: "consistency_section l tips = tips @ consistency_section l []"
  by (simp add: consistency_section_def)

lemma generatePersonalTips_sections:
  "questLog \<noteq> [] \<Longrightarrow>
   generatePersonalTips questLog =
     bmi_section (last questLog) [] @ sleep_section (avgSleep questLog) []
     @ heart_rate_section (avgHR questLog) [] @ cycle_section (last questLog) []
     @ consistency_section questLog []"
proof -
  assume ne: "questLog \<noteq> []"
  then have l: "questLog ! (length questLog - 1) = last questLog"
    by (simp add: last_conv_nth)
  show ?thesis
    unfolding generatePersonalTips_def Let_def l
    using ne
    apply simp
    apply (subst consistency_section_append)
    apply (subst cycle_section_append)
    apply (subst heart_rate_section_append)
    apply (subst sleep_section_append)
    apply simp
    done
qed

section \<open>Facts about the tips\<close>

lemmas tip_defs =
  tip_bmi_underweight_def tip_bmi_healthy_def tip_bmi_overweight_def tip_bmi_obese_def
  tip_sleep_low_def tip_sleep_almost_def tip_sleep_good_def tip_sleep_over_def
  tip_hr_low_def tip_hr_normal_def tip_hr_high_def
  tip_cycle_active_def tip_cycle_length_def tip_streak_def

lemmas category_defs =
  is_bmi_tip_def is_sleep_tip_def is_hr_tip_def is_cycle_tip_def is_consistency_tip_def

lemma category_bmi [simp]:
  "is_bmi_tip (tip_bmi_underweight b)" "is_bmi_tip (tip_bmi_healthy b)"
  "is_bmi_tip (tip_bmi_overweight b)" "is_bmi_tip (tip_bmi_obese b)"
  "\<not> is_bmi_tip (tip_sleep_low a)" "\<not> is_bmi_tip (tip_sleep_almost a)"
  "\<not> is_bmi_tip (tip_sleep_good a)" "\<not> is_bmi_tip (tip_sleep_over a)"
  "\<not> is_bmi_tip (tip_hr_low a)" "\<not> is_bmi_tip (tip_hr_normal a)" "\<not> is_bmi_tip (tip_hr_high a)"
  "\<not> is_bmi_tip tip_cycle_active" "\<not> is_bmi_tip (tip_cycle_length v)"
  "\<not> is_bmi_tip (tip_streak n)"
  by (simp_all add: is_bmi_tip_def tip_defs)

lemma category_sleep [simp]:
  "\<not> is_sleep_tip (tip_bmi_underweight b)" "\<not> is_sleep_tip (tip_bmi_healthy b)"
  "\<not> is_sleep_tip (tip_bmi_overweight b)" "\<not> is_sleep_tip (tip_bmi_obese b)"
  "is_sleep_tip (tip_sleep_low a)" "is_sleep_tip (tip_sleep_almost a)"
  "is_sleep_tip (tip_sleep_good a)" "is_sleep_tip (tip_sleep_over a)"
  "\<not> is_sleep_tip (tip_hr_low a)" "\<not> is_sleep_tip (tip_hr_normal a)" "\<not> is_sleep_tip (tip_hr_high a)"
  "\<not> is_sleep_tip tip_cycle_active" "\<not> is_sleep_tip (tip_cycle_length v)"
  "\<not> is_sleep_tip (tip_streak n)"
  by (simp_all add: is_sleep_tip_def tip_defs)

lemma category_hr [simp]:
  "\<not> is_hr_tip (tip_bmi_underweight b)" "\<not> is_hr_tip (tip_bmi_healthy b)"
  "\<not> is_hr_tip (tip_bmi_overweight b)" "\<not> is_hr_tip (tip_bmi_obese b)"
  "\<not> is_hr_tip (tip_sleep_low a)" "\<not> is_hr_tip (tip_sleep_almost a)"
  "\<not> is_hr_tip (tip_sleep_good a)" "\<not> is_hr_tip (tip_sleep_over a)"
  "is_hr_tip (tip_hr_low a)" "is_hr_tip (tip_hr_normal a)" "is_hr_tip (tip_hr_high a)"
  "\<not> is_hr_tip tip_cycle_active" "\<not> is_hr_tip (tip_cycle_length v)"
  "\<not> is_hr_tip (tip_streak n)"
  by (simp_all add: is_hr_tip_def tip_defs)

lemma category_cycle [simp]:
  "\<not> is_cycle_tip (tip_bmi_underweight b)" "\<not> is_cycle_tip (tip_bmi_healthy b)"
  "\<not> is_cycle_tip (tip_bmi_overweight b)" "\<not> is_cycle_tip (tip_bmi_obese b)"
  "\<not> is_cycle_tip (tip_sleep_low a)" "\<not> is_cycle_tip (tip_sleep_almost a)"
  "\<not> is_cycle_tip (tip_sleep_good a)" "\<not> is_cycle_tip (tip_sleep_over a)"
  "\<not> is_cycle_tip (tip_hr_low a)" "\<not> is_cycle_tip (tip_hr_normal a)" "\<not> is_cycle_tip (tip_hr_high a)"
  "is_cycle_tip tip_cycle_active" "is_cycle_tip (tip_cycle_length v)"
  "\<not> is_cycle_tip (tip_streak n)"
  by (simp_all add: is_cycle_tip_def tip_defs)

lemma category_consistency [simp]:
  "\<not> is_consistency_tip (tip_bmi_underweight b)" "\<not> is_consistency_tip (tip_bmi_healthy b)"
  "\<not> is_consistency_tip (tip_bmi_overweight b)" "\<not> is_consistency_tip (tip_bmi_obese b)"
  "\<not> is_consistency_tip (tip_sleep_low a)" "\<not> is_consistency_tip (tip_sleep_almost a)"
  "\<not> is_consistency_tip (tip_sleep_good a)" "\<not> is_consistency_tip (tip_sleep_over a)"
  "\<not> is_consistency_tip (tip_hr_low a)" "\<not> is_consistency_tip (tip_hr_normal a)"
  "\<not> is_consistency_tip (tip_hr_high a)"
  "\<not> is_consistency_tip tip_cycle_active" "\<not> is_consistency_tip (tip_cycle_length v)"
  "is_consistency_tip (tip_streak n)"
  by (simp_all add: is_consistency_tip_def tip_defs)

lemma tip_types [simp]:
  "type (tip_bmi_underweight b) = ''warning''" "type (tip_bmi_healthy b) = ''good''"
  "type (tip_bmi_overweight b) = ''warning''" "type (tip_bmi_obese b) = ''alert''"
  "type (tip_sleep_low a) = ''alert''" "type (tip_sleep_almost a) = ''warning''"
  "type (tip_sleep_good a) = ''good''" "type (tip_sleep_over a) = ''warning''"
  "type (tip_hr_low a) = ''info''" "type (tip_hr_normal a) = ''good''"
  "type (tip_hr_high a) = ''alert''"
  "type tip_cycle_active = ''info''" "type (tip_cycle_length v) = ''warning''"
  "type (tip_streak n) = ''good''"
  by (simp_all add: tip_defs)

lemma tip_bodies:
  "sublist (numToString b) (body (tip_bmi_underweight b))"
  "sublist (numToString b) (body (tip_bmi_healthy b))"
  "sublist (numToString b) (body (tip_bmi_overweight b))"
  "sublist (numToString b) (body (tip_bmi_obese b))"
  "sublist (toFixed1 a) (body (tip_sleep_low a))"
  "sublist (toFixed1 a) (body (tip_sleep_almost a))"
  "sublist (toFixed1 a) (body (tip_sleep_good a))"
  "sublist (toFixed1 a) (body (tip_sleep_over a))"
  "sublist (numToString hr) (body (tip_hr_low hr))"
  "sublist (numToString hr) (body (tip_hr_normal hr))"
  "sublist (numToString hr) (body (tip_hr_high hr))"
  "sublist (ToString v) (body (tip_cycle_length v))"
  "sublist (digits n) (body (tip_streak n))"
  by (simp_all only: tip_defs tip.select_convs sublist_appendI)

lemma section_shapes:
  "bmi_section e [] = [] \<or> (\<exists>t. bmi_section e [] = [t] \<and> is_bmi_tip t)"
  "sleep_section a [] = [] \<or> (\<exists>t. sleep_section a [] = [t] \<and> is_sleep_tip t)"
  "heart_rate_section a [] = [] \<or> (\<exists>t. heart_rate_section a [] = [t] \<and> is_hr_tip t)"
  "cycle_section e [] = [] \<or> cycle_section e [] = [tip_cycle_active]
     \<or> cycle_section e [] = [tip_cycle_active, tip_cycle_length (cycleLength e)]"
  "consistency_section l [] = [] \<or> consistency_section l [] = [tip_streak (length l)]"
  by (simp_all add: bmi_section_def sleep_section_def heart_rate_section_def cycle_section_def
        consistency_section_def Let_def split: option.splits)

section \<open>The output by category\<close>

lemma in_bmi_section:
  "t \<in> set (bmi_section e []) \<Longrightarrow>
   is_bmi_tip t \<and> \<not> is_sleep_tip t \<and> \<not> is_hr_tip t \<and> \<not> is_cycle_tip t \<and> \<not> is_consistency_tip t"
  by (auto simp: bmi_section_def Let_def split: if_splits)

lemma in_sleep_section:
  "t \<in> set (sleep_section a []) \<Longrightarrow>
   \<not> is_bmi_tip t \<and> is_sleep_tip t \<and> \<not> is_hr_tip t \<and> \<not> is_cycle_tip t \<and> \<not> is_consistency_tip t"
  by (auto simp: sleep_section_def split: if_splits option.splits)

lemma in_heart_rate_section:
  "t \<in> set (heart_rate_section a []) \<Longrightarrow>
   \<not> is_bmi_tip t \<and> \<not> is_sleep_tip t \<and> is_hr_tip t \<and> \<not> is_cycle_tip t \<and> \<not> is_consistency_tip t"
  by (auto simp: heart_rate_section_def Let_def split: if_splits option.splits)

lemma in_cycle_section:
  "t \<in> set (cycle_section e []) \<Longrightarrow>
   \<not> is_bmi_tip t \<and> \<not> is_sleep_tip t \<and> \<not> is_hr_tip t \<and> is_cycle_tip t \<and> \<not> is_consistency_tip t"
  by (auto simp: cycle_section_def Let_def split: if_splits)

lemma in_consistency_section:
  "t \<in> set (consistency_section l []) \<Longrightarrow>
   \<not> is_bmi_tip t \<and> \<not> is_sleep_tip t \<and> \<not> is_hr_tip t \<and> \<not> is_cycle_tip t \<and> is_consistency_tip t"
  by (auto simp: consistency_section_def split: if_splits)

lemmas in_sections =
  in_bmi_section in_sleep_section in_heart_rate_section in_cycle_section in_consistency_section

lemma filter_all: "(\<And>t. t \<in> set xs \<Longrightarrow> P t) \<Longrightarrow> filter P xs = xs"
  by (induction xs) auto

lemma filter_none: "(\<And>t. t \<in> set xs \<Longrightarrow> \<not> P t) \<Longrightarrow> filter P xs = []"
  by (induction xs) auto

lemma filter_bmi:
  "filter is_bmi_tip (generatePersonalTips questLog) =
     (if questLog = [] then [] else bmi_section (last questLog) [])"
proof (cases "questLog = []")
  case True
  then show ?thesis by (simp add: generatePersonalTips_def)
next
  case False
  have "filter is_bmi_tip (bmi_section (last questLog) []) = bmi_section (last questLog) []"
    by (rule filter_all) (simp add: in_bmi_section)
  moreover have "filter is_bmi_tip (sleep_section (avgSleep questLog) []) = []"
    by (rule filter_none) (simp add: in_sleep_section)
  moreover have "filter is_bmi_tip (heart_rate_section (avgHR questLog) []) = []"
    by (rule filter_none) (simp add: in_heart_rate_section)
  moreover have "filter is_bmi_tip (cycle_section (last questLog) []) = []"
    by (rule filter_none) (simp add: in_cycle_section)
  moreover have "filter is_bmi_tip (consistency_section questLog []) = []"
    by (rule filter_none) (simp add: in_consistency_section)
  ultimately show ?thesis
    using False by (simp add: generatePersonalTips_sections)
qed

lemma filter_sleep:
  "filter is_sleep_tip (generatePersonalTips questLog) =
     (if questLog = [] then [] else sleep_section (avgSleep questLog) [])"
proof (cases "questLog = []")
  case True
  then show ?thesis by (simp add: generatePersonalTips_def)
next
  case False
  have "filter is_sleep_tip (bmi_section (last questLog) []) = []"
    by (rule filter_none) (simp add: in_bmi_section)
  moreover have "filter is_sleep_tip (sleep_section (avgSleep questLog) []) = sleep_section (avgSleep questLog) []"
    by (rule filter_all) (simp add: in_sleep_section)
  moreover have "filter is_sleep_tip (heart_rate_section (avgHR questLog) []) = []"
    by (rule filter_none) (simp add: in_heart_rate_section)
  moreover have "filter is_sleep_tip (cycle_section (last questLog) []) = []"
    by (rule filter_none) (simp add: in_cycle_section)
  moreover have "filter is_sleep_tip (consistency_section questLog []) = []"
    by (rule filter_none) (simp add: in_consistency_section)
  ultimately show ?thesis
    using False by (simp add: generatePersonalTips_sections)
qed

lemma filter_hr:
  "filter is_hr_tip (generatePersonalTips questLog) =
     (if questLog = [] then [] else heart_rate_section (avgHR questLog) [])"
proof (cases "questLog = []")
  case True
  then show ?thesis by (simp add: generatePersonalTips_def)
next
  case False
  have "filter is_hr_tip (bmi_section (last questLog) []) = []"
    by (rule filter_none) (simp add: in_bmi_section)
  moreover have "filter is_hr_tip (sleep_section (avgSleep questLog) []) = []"
    by (rule filter_none) (simp add: in_sleep_section)
  moreover have "filter is_hr_tip (heart_rate_section (avgHR questLog) []) = heart_rate_section (avgHR questLog) []"
    by (rule filter_all) (simp add: in_heart_rate_section)
  moreover have "filter is_hr_tip (cycle_section (last questLog) []) = []"
    by (rule filter_none) (simp add: in_cycle_section)
  moreover have "filter is_hr_tip (consistency_section questLog []) = []"
    by (rule filter_none) (simp add: in_consistency_section)
  ultimately show ?thesis
    using False by (simp add: generatePersonalTips_sections)
qed

lemma filter_cycle:
  "filter is_cycle_tip (generatePersonalTips questLog) =
     (if questLog = [] then [] else cycle_section (last questLog) [])"
proof (cases "questLog = []")
  case True
  then show ?thesis by (simp add: generatePersonalTips_def)
next
  case False
  have "filter is_cycle_tip (bmi_section (last questLog) []) = []"
    by (rule filter_none) (simp add: in_bmi_section)
  moreover have "filter is_cycle_tip (sleep_section (avgSleep questLog) []) = []"
    by (rule filter_none) (simp add: in_sleep_section)
  moreover have "filter is_cycle_tip (heart_rate_section (avgHR questLog) []) = []"
    by (rule filter_none) (simp add: in_heart_rate_section)
  moreover have "filter is_cycle_tip (cycle_section (last questLog) []) = cycle_section (last questLog) []"
    by (rule filter_all) (simp add: in_cycle_section)
  moreover have "filter is_cycle_tip (consistency_section questLog []) = []"
    by (rule filter_none) (simp add: in_consistency_section)
  ultimately show ?thesis
    using False by (simp add: generatePersonalTips_sections)
qed

lemma filter_consistency:
  "filter is_consistency_tip (generatePersonalTips questLog) = consistency_section questLog []"
proof (cases "questLog = []")
  case True
  then show ?thesis by (simp add: generatePersonalTips_def consistency_section_def)
next
  case False
  have "filter is_consistency_tip (bmi_section (last questLog) []) = []"
    by (rule filter_none) (simp add: in_bmi_section)
  moreover have "filter is_consistency_tip (sleep_section (avgSleep questLog) []) = []"
    by (rule filter_none) (simp add: in_sleep_section)
  moreover have "filter is_consistency_tip (heart_rate_section (avgHR questLog) []) = []"
    by (rule filter_none) (simp add: in_heart_rate_section)
  moreover have "filter is_consistency_tip (cycle_section (last questLog) []) = []"
    by (rule filter_none) (simp add: in_cycle_section)
  moreover have "filter is_consistency_tip (consistency_section questLog []) = consistency_section questLog []"
    by (rule filter_all) (simp add: in_consistency_section)
  ultimately show ?thesis
    using False by (simp add: generatePersonalTips_sections)
qed

lemma rank_sections:
  "t \<in> set (bmi_section e []) \<Longrightarrow> category_rank t = 0"
  "t \<in> set (sleep_section a []) \<Longrightarrow> category_rank t = 1"
  "t \<in> set (heart_rate_section a []) \<Longrightarrow> category_rank t = 2"
  "t \<in> set (cycle_section e []) \<Longrightarrow> category_rank t = 3"
  "t \<in> set (consistency_section l []) \<Longrightarrow> category_rank t = 4"
  by (simp_all add: category_rank_def in_sections)

lemma sorted_map_const: "(\<And>t. t \<in> set xs \<Longrightarrow> f t = (c::nat)) \<Longrightarrow> sorted (map f xs)"
  by (induction xs) auto

lemma sorted_ranks: "sorted (map category_rank (generatePersonalTips questLog))"
proof (cases "questLog = []")
  case True
  then show ?thesis by (simp add: generatePersonalTips_def)
next
  case False
  then show ?thesis
    by (auto simp: generatePersonalTips_sections sorted_append rank_sections
          intro: sorted_map_const [where c = 0] sorted_map_const [where c = 1]
            sorted_map_const [where c = 2] sorted_map_const [where c = 3]
            sorted_map_const [where c = 4])
qed

lemma digits_small: "digits 2 = ''2''" "digits 3 = ''3''"
  by (simp_all add: digits.simps digit_char_def)

lemma section_lengths:
  "length (bmi_section e []) \<le> 1" "length (sleep_section a []) \<le> 1"
  "length (heart_rate_section a []) \<le> 1" "length (cycle_section e []) \<le> 2"
  "length (consistency_section l []) \<le> 1"
  by (simp_all add: bmi_section_def sleep_section_def heart_rate_section_def cycle_section_def
        consistency_section_def Let_def split: option.splits)

lemma section_types:
  "t \<in> set (bmi_section e []) \<Longrightarrow> type t \<in> {''good'', ''warning'', ''alert'', ''info''}"
  "t \<in> set (sleep_section a []) \<Longrightarrow> type t \<in> {''good'', ''warning'', ''alert'', ''info''}"
  "t \<in> set (heart_rate_section a []) \<Longrightarrow> type t \<in> {''good'', ''warning'', ''alert'', ''info''}"
  "t \<in> set (cycle_section e []) \<Longrightarrow> type t \<in> {''good'', ''warning'', ''alert'', ''info''}"
  "t \<in> set (consistency_section l []) \<Longrightarrow> type t \<in> {''good'', ''warning'', ''alert'', ''info''}"
  by (auto simp: bmi_section_def sleep_section_def heart_rate_section_def cycle_section_def
        consistency_section_def Let_def split: option.splits if_splits)

section \<open>Buckets, averages and falsy fields\<close>

lemma heart_rate_section_None: "heart_rate_section None [] = []"
  by (simp add: heart_rate_section_def)

lemma heart_rate_section_Some:
  "heart_rate_section (Some a) [] =
     [if num_lt (Math_round a) (Fin 60) then tip_hr_low (Math_round a)
      else if num_le (Math_round a) (Fin 100) then tip_hr_normal (Math_round a)
      else tip_hr_high (Math_round a)]"
  by (simp add: heart_rate_section_def Let_def)

lemma num_ge_not_lt: "num_ge x y \<Longrightarrow> \<not> num_lt x y"
  by (simp add: num_ge_def num_le_def)

lemma num_gt_not_le: "num_gt x y \<Longrightarrow> \<not> num_le x y"
  by (simp add: num_gt_def num_le_def)

lemma num_lt_trans: "num_lt x y \<Longrightarrow> num_lt y z \<Longrightarrow> num_lt x z"
  by (cases x; cases y; cases z) simp_all

lemma avg_empty: "avgSleep [] = None" "avgHR [] = None"
  by (simp_all add: avgSleep_mean avgHR_mean sleep_values_def hr_values_def num_mean_def)

lemma Math_round_nearest:
  "\<exists>r::int. Math_round (Fin q) = Fin (of_int r) \<and> \<bar>of_int r - q\<bar> \<le> 1 / 2"
proof -
  have "of_int \<lfloor>q + 1 / 2\<rfloor> \<le> q + 1 / 2" "q + 1 / 2 < of_int \<lfloor>q + 1 / 2\<rfloor> + 1"
    by linarith+
  then have "\<bar>of_int \<lfloor>q + 1 / 2\<rfloor> - q\<bar> \<le> 1 / 2"
    by linarith
  then show ?thesis
    by auto
qed

lemma num_cases_60_100:
  "x \<noteq> NaN \<Longrightarrow>
   num_lt x (Fin 60) \<or> (num_ge x (Fin 60) \<and> num_le x (Fin 100)) \<or> num_gt x (Fin 100)"
  by (cases x) (auto simp: num_ge_def num_le_def num_gt_def)

lemma Math_round_NaN: "Math_round a = NaN \<longleftrightarrow> a = NaN"
  by (cases a) simp_all

lemma hr_tip_cases:
  assumes "avgHR questLog = Some a"
  shows "\<exists>t. filter is_hr_tip (generatePersonalTips questLog) = [t]
        \<and> (num_lt (Math_round a) (Fin 60) \<longrightarrow> t = tip_hr_low (Math_round a) \<and> type t = ''info'')
        \<and> (num_ge (Math_round a) (Fin 60) \<and> num_le (Math_round a) (Fin 100)
             \<longrightarrow> t = tip_hr_normal (Math_round a) \<and> type t = ''good'')
        \<and> (num_gt (Math_round a) (Fin 100) \<longrightarrow> t = tip_hr_high (Math_round a) \<and> type t = ''alert'')"
proof -
  from assms have ne: "questLog \<noteq> []"
    by (auto simp: avg_empty)
  have lo: "num_gt (Math_round a) (Fin 100) \<Longrightarrow> \<not> num_lt (Math_round a) (Fin 60)"
  proof
    assume "num_gt (Math_round a) (Fin 100)" "num_lt (Math_round a) (Fin 60)"
    then have "num_lt (Fin 100) (Fin 60)"
      unfolding num_gt_def by (rule num_lt_trans)
    then show False by simp
  qed
  show ?thesis
    using ne assms lo
    by (auto simp: filter_hr heart_rate_section_Some dest: num_ge_not_lt num_gt_not_le)
qed

lemma sleep_section_None: "sleep_section None [] = []"
  by (simp add: sleep_section_def)

lemma sleep_section_Some:
  "sleep_section (Some a) [] =
     [if num_lt a (Fin 6) then tip_sleep_low a
      else if num_lt a (Fin 7) then tip_sleep_almost a
      else if num_le a (Fin 9) then tip_sleep_good a
      else tip_sleep_over a]"
  by (simp add: sleep_section_def)

lemma sleep_buckets:
  "num_ge a (Fin 6) \<Longrightarrow> \<not> num_lt a (Fin 6)"
  "num_ge a (Fin 7) \<Longrightarrow> \<not> num_lt a (Fin 6) \<and> \<not> num_lt a (Fin 7)"
  "num_gt a (Fin 9) \<Longrightarrow> \<not> num_lt a (Fin 6) \<and> \<not> num_lt a (Fin 7) \<and> \<not> num_le a (Fin 9)"
  by (cases a; simp add: num_ge_def num_gt_def num_le_def)+

lemma num_cases_6_7_9:
  "a \<noteq> NaN \<Longrightarrow>
   num_lt a (Fin 6) \<or> (num_ge a (Fin 6) \<and> num_lt a (Fin 7))
   \<or> (num_ge a (Fin 7) \<and> num_le a (Fin 9)) \<or> num_gt a (Fin 9)"
  by (cases a) (auto simp: num_ge_def num_le_def num_gt_def)

lemma sleep_tip_cases:
  assumes "avgSleep questLog = Some a"
  shows "\<exists>t. filter is_sleep_tip (generatePersonalTips questLog) = [t]
        \<and> (num_lt a (Fin 6) \<longrightarrow> t = tip_sleep_low a \<and> type t = ''alert'')
        \<and> (num_ge a (Fin 6) \<and> num_lt a (Fin 7) \<longrightarrow> t = tip_sleep_almost a \<and> type t = ''warning'')
        \<and> (num_ge a (Fin 7) \<and> num_le a (Fin 9) \<longrightarrow> t = tip_sleep_good a \<and> type t = ''good'')
        \<and> (num_gt a (Fin 9) \<longrightarrow> t = tip_sleep_over a \<and> type t = ''warning'')
        \<and> sublist (toFixed1 a) (body t)"
proof -
  from assms have ne: "questLog \<noteq> []"
    by (auto simp: avg_empty)
  show ?thesis
    using ne assms sleep_buckets [of a]
    by (auto simp: filter_sleep sleep_section_Some tip_bodies)
qed

lemma num_mean_None: "num_mean vs = None \<longleftrightarrow> vs = []"
  by (simp add: num_mean_def)

lemma avgSleep_None: "avgSleep questLog = None \<longleftrightarrow> (\<forall>e \<in> set questLog. \<not> truthy (sleepHours e))"
  by (simp add: avgSleep_mean num_mean_None sleep_values_def filter_empty_conv)

lemma avgHR_None: "avgHR questLog = None \<longleftrightarrow> (\<forall>e \<in> set questLog. \<not> truthy (heartRate e))"
  by (simp add: avgHR_mean num_mean_None hr_values_def filter_empty_conv)

lemma truthy_present: "truthy v \<Longrightarrow> spec_present v"
  by (cases v) (simp_all add: spec_present_def)

lemma avgSleep_spec:
  assumes "\<forall>e \<in> set questLog. spec_present (sleepHours e) \<longrightarrow> truthy (sleepHours e)"
  shows "avgSleep questLog = spec_avgSleep questLog"
proof -
  have "filter (\<lambda>e. truthy (sleepHours e)) questLog
      = filter (\<lambda>e. spec_present (sleepHours e)) questLog"
    using assms by (intro filter_cong) (auto dest: truthy_present)
  then show ?thesis
    by (simp add: avgSleep_mean spec_avgSleep_def sleep_values_def)
qed

lemma digits_nonempty: "digits n \<noteq> []"
  by (subst digits.simps) simp

lemma toFixed1_rounds:
  assumes "\<bar>q\<bar> < 10 ^ 21"
  shows "toFixed1 (Fin q) =
     (if q < 0 then ''-'' else '''')
     @ digits (nat \<lfloor>\<bar>q\<bar> * 10 + 1 / 2\<rfloor> div 10) @ ''.''
     @ [digit_char (nat \<lfloor>\<bar>q\<bar> * 10 + 1 / 2\<rfloor> mod 10)]"
proof -
  define n where "n = nat \<lfloor>\<bar>q\<bar> * 10 + 1 / 2\<rfloor>"
  have split: "fixed1 (digits n) = digits (n div 10) @ ''.'' @ [digit_char (n mod 10)]"
  proof (cases "n < 10")
    case True
    then have "digits n = [digit_char n]"
      by (subst digits.simps) simp
    moreover have "digits (n div 10) = [digit_char 0]"
      using True by (subst digits.simps) simp
    ultimately show ?thesis
      using True by (simp add: fixed1_def digit_char_def)
  next
    case False
    then have m0: "digits n = digits (n div 10) @ [digit_char (n mod 10)]"
      by (subst digits.simps) simp
    have "length (digits (n div 10)) \<noteq> 0"
      using digits_nonempty by simp
    then show ?thesis
      by (simp add: fixed1_def m0)
  qed
  have "toFixed1 (Fin q) = (if q < 0 then ''-'' else '''') @ fixed1 (digits n)"
    using assms by (simp add: n_def)
  then show ?thesis
    using split by (simp add: n_def)
qed


lemma bmi_section_tip:
  "truthy (bmi e) \<Longrightarrow> bmi e \<noteq> JStr ''--'' \<Longrightarrow>
   bmi_section e [] =
     [if num_lt (parseFloat (bmi e)) (Fin 18.5) then tip_bmi_underweight (parseFloat (bmi e))
      else if num_ge (parseFloat (bmi e)) (Fin 18.5) \<and> num_lt (parseFloat (bmi e)) (Fin 25)
      then tip_bmi_healthy (parseFloat (bmi e))
      else if num_ge (parseFloat (bmi e)) (Fin 25) \<and> num_lt (parseFloat (bmi e)) (Fin 30)
      then tip_bmi_overweight (parseFloat (bmi e))
      else tip_bmi_obese (parseFloat (bmi e))]"
  by (simp add: bmi_section_def Let_def)




lemma cycle_section_eq:
  "cycle_section e [] =
     (if truthy (cycleTracking e)
      then tip_cycle_active
           # (if truthy (cycleLength e)
                  \<and> (num_lt (ToNumber (cycleLength e)) (Fin 21)
                       \<or> num_gt (ToNumber (cycleLength e)) (Fin 35))
              then [tip_cycle_length (cycleLength e)] else [])
      else [])"
  by (auto simp: cycle_section_def Let_def)

lemma absent_if_falsy_simps [simp]:
  "truthy (absent_if_falsy v) = truthy v"
  "truthy v \<Longrightarrow> absent_if_falsy v = v"
  by (simp_all add: absent_if_falsy_def)

lemma drop_falsy_fields [simp]:
  "bmi (drop_falsy e) = absent_if_falsy (bmi e)"
  "sleepHours (drop_falsy e) = absent_if_falsy (sleepHours e)"
  "heartRate (drop_falsy e) = absent_if_falsy (heartRate e)"
  "cycleTracking (drop_falsy e) = absent_if_falsy (cycleTracking e)"
  "cycleLength (drop_falsy e) = absent_if_falsy (cycleLength e)"
  by (simp_all add: drop_falsy_def)

lemma values_drop_falsy:
  "sleep_values (map drop_falsy l) = sleep_values l"
  "hr_values (map drop_falsy l) = hr_values l"
  by (induction l) (simp_all add: sleep_values_def hr_values_def)

lemma sections_drop_falsy:
  "bmi_section (drop_falsy e) [] = bmi_section e []"
  "cycle_section (drop_falsy e) [] = cycle_section e []"
  "consistency_section (map drop_falsy l) [] = consistency_section l []"
  by (auto simp: bmi_section_def cycle_section_def consistency_section_def Let_def)

lemma generatePersonalTips_drop_falsy:
  "generatePersonalTips (map drop_falsy questLog) = generatePersonalTips questLog"
proof (cases "questLog = []")
  case True
  then show ?thesis by simp
next
  case False
  then show ?thesis
    by (simp add: generatePersonalTips_sections avgSleep_mean avgHR_mean values_drop_falsy
          sections_drop_falsy last_map)
qed

lemma num_div_NaN [simp]: "num_div NaN y = NaN"
  by simp

lemma sleep_NaN:
  assumes "\<exists>e \<in> set questLog. truthy (sleepHours e) \<and> parseFloat (sleepHours e) = NaN"
  shows "avgSleep questLog = Some NaN
    \<and> filter is_sleep_tip (generatePersonalTips questLog) = [tip_sleep_over NaN]"
proof -
  from assms have "NaN \<in> set (sleep_values questLog)"
    by (force simp: sleep_values_def)
  then have av: "avgSleep questLog = Some NaN"
    by (simp add: avgSleep_mean num_mean_has_NaN)
  from assms have "questLog \<noteq> []"
    by auto
  with av show ?thesis
    by (simp add: filter_sleep sleep_section_Some num_le_def)
qed

lemma hr_NaN:
  assumes "\<exists>e \<in> set questLog. truthy (heartRate e) \<and> parseFloat (heartRate e) = NaN"
  shows "avgHR questLog = Some NaN
    \<and> filter is_hr_tip (generatePersonalTips questLog) = [tip_hr_high NaN]"
proof -
  from assms have "NaN \<in> set (hr_values questLog)"
    by (force simp: hr_values_def)
  then have av: "avgHR questLog = Some NaN"
    by (simp add: avgHR_mean num_mean_has_NaN)
  from assms have "questLog \<noteq> []"
    by auto
  with av show ?thesis
    by (simp add: filter_hr heart_rate_section_Some num_le_def)
qed

lemma bmi_NaN:
  assumes "questLog \<noteq> []" "truthy (bmi (last questLog))" "bmi (last questLog) \<noteq> JStr ''--''"
    "parseFloat (bmi (last questLog)) = NaN"
  shows "filter is_bmi_tip (generatePersonalTips questLog) = [tip_bmi_obese NaN]"
  using assms by (simp add: filter_bmi bmi_section_tip num_ge_def num_le_def)

section \<open>Evaluating the function on a log\<close>

lemma tip_streak_numerals:
  "tip_streak (Suc (Suc (Suc 0))) = tip_streak 3"
  "tip_streak (Suc (Suc (Suc (Suc 0)))) = tip_streak 4"
  by (simp_all add: eval_nat_numeral)

lemmas gen_eval =
  generatePersonalTips_sections bmi_section_def sleep_section_def heart_rate_section_def
  cycle_section_def consistency_section_def avgSleep_mean avgHR_mean sleep_values_def
  hr_values_def num_mean_def blank_def Let_def spec_avgSleep_def spec_present_def
  spec_sanitize_def spec_absent_if_malformed_def exact_mean_def tip_streak_numerals

lemmas log_defs =
  log_full_def log_hr_high_def log_579_def log_zero_sleep_def log_short_sleep_def
  log_malformed_def log_all_malformed_def log_sleep_rounded_def log_hr_rounded_def
  log_hr_malformed_def

section \<open>The claims\<close>

text \<open>
  C1 fails, by a defect of the code. A field is skipped only when it is falsy; a truthy
  field that does not parse (\<^verbatim>\<open>"abc"\<close>, \<^verbatim>\<open>true\<close>) is parsed to \<^verbatim>\<open>NaN\<close> and used. Then the
  average of its field over the whole log is \<^verbatim>\<open>NaN\<close>, every comparison is false, and the
  tip comes from the last branch of the section, the one for the highest values, with
  \<^verbatim>\<open>NaN\<close> in its body: the oversleep warning, the alert for a high heart rate and, for
  the latest \<^verbatim>\<open>bmi\<close>, the alert for obesity. With \<^verbatim>\<open>sleepHours\<close> \<^verbatim>\<open>"abc"\<close> and 8 the output is
  the oversleep warning; with the malformed field absent it is the good tip for 8. (The
  placeholder \<^verbatim>\<open>--\<close> of \<^verbatim>\<open>bmi\<close>, which the source does test for, is skipped.) On an array
  of objects no statement throws, but an element that is \<^verbatim>\<open>null\<close> makes the loop throw a
  \<^verbatim>\<open>TypeError\<close>.
\<close>

theorem C1_malformed:
  "((\<exists>e \<in> set questLog. truthy (sleepHours e) \<and> parseFloat (sleepHours e) = NaN) \<longrightarrow>
      avgSleep questLog = Some NaN
      \<and> filter is_sleep_tip (generatePersonalTips questLog) = [tip_sleep_over NaN])
   \<and> ((\<exists>e \<in> set questLog. truthy (heartRate e) \<and> parseFloat (heartRate e) = NaN) \<longrightarrow>
      avgHR questLog = Some NaN
      \<and> filter is_hr_tip (generatePersonalTips questLog) = [tip_hr_high NaN])
   \<and> (questLog \<noteq> [] \<and> truthy (bmi (last questLog)) \<and> bmi (last questLog) \<noteq> JStr ''--''
        \<and> parseFloat (bmi (last questLog)) = NaN \<longrightarrow>
      filter is_bmi_tip (generatePersonalTips questLog) = [tip_bmi_obese NaN])
   \<and> title (tip_sleep_over NaN) = ''Oversleep Warning!''
   \<and> title (tip_hr_high NaN) = ''Heart Rate Running High!''
   \<and> title (tip_bmi_obese NaN) = ''Critical Quest: Weight Management''
   \<and> type (tip_sleep_over NaN) = ''warning''
   \<and> type (tip_hr_high NaN) = ''alert''
   \<and> type (tip_bmi_obese NaN) = ''alert''
   \<and> sublist ''NaN'' (body (tip_sleep_over NaN))
   \<and> sublist ''NaN'' (body (tip_hr_high NaN))
   \<and> sublist ''NaN'' (body (tip_bmi_obese NaN))
   \<and> truthy (JStr ''abc'') \<and> parseFloat (JStr ''abc'') = NaN
   \<and> generatePersonalTips log_malformed = [tip_sleep_over NaN]
   \<and> generatePersonalTips (map spec_sanitize log_malformed) = [tip_sleep_good (Fin 8)]
   \<and> generatePersonalTips log_all_malformed
       = [tip_bmi_obese NaN, tip_sleep_over NaN, tip_hr_high NaN]
   \<and> generatePersonalTips (map spec_sanitize log_all_malformed) = []
   \<and> generatePersonalTips [blank\<lparr>bmi := JStr ''--''\<rparr>] = []
   \<and> generatePersonalTips (map drop_falsy questLog) = generatePersonalTips questLog
   \<and> generatePersonalTips_items (map Obj questLog) = Inr (generatePersonalTips questLog)
   \<and> generatePersonalTips_items [Obj (blank\<lparr>sleepHours := JNum (Fin 8)\<rparr>), Null]
       = Inl TypeError"
proof -
  have b: "sublist ''NaN'' (body (tip_sleep_over NaN))"
    "sublist ''NaN'' (body (tip_hr_high NaN))"
    "sublist ''NaN'' (body (tip_bmi_obese NaN))"
    using tip_bodies(8) [of NaN] tip_bodies(11) [of NaN] tip_bodies(4) [of NaN]
    by simp_all
  have ti: "title (tip_sleep_over NaN) = ''Oversleep Warning!''"
    "title (tip_hr_high NaN) = ''Heart Rate Running High!''"
    "title (tip_bmi_obese NaN) = ''Critical Quest: Weight Management''"
    by (simp_all add: tip_sleep_over_def tip_hr_high_def tip_bmi_obese_def)
  have ex: "truthy (JStr ''abc'')" "parseFloat (JStr ''abc'') = NaN"
    "generatePersonalTips log_malformed = [tip_sleep_over NaN]"
    "generatePersonalTips (map spec_sanitize log_malformed) = [tip_sleep_good (Fin 8)]"
    "generatePersonalTips log_all_malformed
       = [tip_bmi_obese NaN, tip_sleep_over NaN, tip_hr_high NaN]"
    "generatePersonalTips (map spec_sanitize log_all_malformed) = []"
    "generatePersonalTips [blank\<lparr>bmi := JStr ''--''\<rparr>] = []"
    by (simp_all add: gen_eval log_defs str_eval num_eval)
  have err: "generatePersonalTips_items [Obj (blank\<lparr>sleepHours := JNum (Fin 8)\<rparr>), Null]
       = Inl TypeError"
    by (simp add: generatePersonalTips_items_Null)
  show ?thesis
    using sleep_NaN [of questLog] hr_NaN [of questLog] bmi_NaN [of questLog] b ti ex err
      generatePersonalTips_drop_falsy [of questLog] generatePersonalTips_items_Obj [of questLog]
      tip_types(8) [of NaN] tip_types(11) [of NaN] tip_types(4) [of NaN]
    by blast
qed

theorem C1_malformed_witness:
  "truthy (JStr ''abc'') \<and> parseFloat (JStr ''abc'') = NaN
   \<and> truthy (JBool True) \<and> parseFloat (JBool True) = NaN
   \<and> truthy (JStr ''n/a'') \<and> parseFloat (JStr ''n/a'') = NaN
   \<and> filter is_sleep_tip (generatePersonalTips log_all_malformed) = [tip_sleep_over NaN]
   \<and> filter is_hr_tip (generatePersonalTips log_all_malformed) = [tip_hr_high NaN]
   \<and> filter is_bmi_tip (generatePersonalTips log_all_malformed) = [tip_bmi_obese NaN]"
proof -
  have v: "truthy (JStr ''abc'')" "parseFloat (JStr ''abc'') = NaN"
    "truthy (JBool True)" "parseFloat (JBool True) = NaN"
    "truthy (JStr ''n/a'')" "parseFloat (JStr ''n/a'') = NaN"
    by (simp_all add: gen_eval log_defs str_eval num_eval)
  have hs: "\<exists>e \<in> set log_all_malformed. truthy (sleepHours e) \<and> parseFloat (sleepHours e) = NaN"
    and hh: "\<exists>e \<in> set log_all_malformed. truthy (heartRate e) \<and> parseFloat (heartRate e) = NaN"
    and hb: "log_all_malformed \<noteq> [] \<and> truthy (bmi (last log_all_malformed))
        \<and> bmi (last log_all_malformed) \<noteq> JStr ''--''
        \<and> parseFloat (bmi (last log_all_malformed)) = NaN"
    by (simp_all add: gen_eval log_defs str_eval num_eval)
  from C1_malformed [of log_all_malformed] hs hh hb
  have "filter is_sleep_tip (generatePersonalTips log_all_malformed) = [tip_sleep_over NaN]"
    "filter is_hr_tip (generatePersonalTips log_all_malformed) = [tip_hr_high NaN]"
    "filter is_bmi_tip (generatePersonalTips log_all_malformed) = [tip_bmi_obese NaN]"
    by blast+
  with v show ?thesis
    by (simp only: simp_thms)
qed

text \<open>
  C2, as stated, fails. With \<^verbatim>\<open>sleepHours\<close> 0 and 8 (numbers) both fields are present and
  their mean is 4, the alert bucket; the code skips the 0, which is falsy, so that
  \<^verbatim>\<open>avgSleep\<close> is 8 and the tip is the one of the good bucket. And the mean is computed in
  binary64 arithmetic: the values 5, 5.6, 8.7 and 8.7 have the mean 7, the good bucket,
  while the code's sum is rounded to a \<^verbatim>\<open>avgSleep\<close> just below 7, and the tip is the warning
  of the bucket from 6 to below 7 (with \<^verbatim>\<open>7.0\<close> in its body).
\<close>

theorem C2_counterexample:
  "spec_present (JNum (Fin 0))
   \<and> spec_avgSleep log_zero_sleep = Some (Fin 4)
   \<and> avgSleep log_zero_sleep = Some (Fin 8)
   \<and> avgSleep log_zero_sleep \<noteq> spec_avgSleep log_zero_sleep
   \<and> generatePersonalTips log_zero_sleep = [tip_sleep_good (Fin 8)]
   \<and> sum_list [5, 5.6, 8.7, 8.7] / 4 = (7 :: rat)
   \<and> avgSleep log_sleep_rounded = Some (Fin (7 - 1 / 2 ^ 50))
   \<and> num_lt (Fin (7 - 1 / 2 ^ 50)) (Fin 7)
   \<and> generatePersonalTips log_sleep_rounded
       = [tip_sleep_almost (Fin (7 - 1 / 2 ^ 50)), tip_streak 4]
   \<and> toFixed1 (Fin (7 - 1 / 2 ^ 50)) = ''7.0''"
  by (simp add: gen_eval log_defs str_eval num_eval)

text \<open>
  C2, amended. \<^verbatim>\<open>avgSleep\<close> is the mean of the parsed \<^verbatim>\<open>sleepHours\<close> over exactly the entries
  where the field is truthy (present and not \<^verbatim>\<open>null\<close>, \<^verbatim>\<open>false\<close>, 0, \<^verbatim>\<open>NaN\<close> or the empty
  string), and \<^verbatim>\<open>null\<close> when there is no such entry. The mean is the one of binary64
  arithmetic: the values are added from 0 in the order of the log and the sum is divided
  by their number, every operation rounded to the nearest double; it is the exact mean
  where no operation rounds. A sleep tip is emitted exactly when \<^verbatim>\<open>avgSleep\<close> is not
  \<^verbatim>\<open>null\<close>: alert below 6, warning from 6 to below 7, good from 7 to 9, warning above
  9 (one of the four for every average that is a number), with \<^verbatim>\<open>avgSleep.toFixed(1)\<close> in
  the body, which is the value rounded to one decimal place. The values 5, 7 and 9 give
  the good tip, whose body contains \<^verbatim>\<open>7.0\<close>. Where every present \<^verbatim>\<open>sleepHours\<close> is truthy,
  \<^verbatim>\<open>avgSleep\<close> is the mean over the present fields.
\<close>

theorem C2_sleep_average:
  "avgSleep questLog = num_mean (sleep_values questLog)
   \<and> (avgSleep questLog = None \<longleftrightarrow> (\<forall>e \<in> set questLog. \<not> truthy (sleepHours e)))
   \<and> ((\<forall>e \<in> set questLog. spec_present (sleepHours e) \<longrightarrow> truthy (sleepHours e))
        \<longrightarrow> avgSleep questLog = spec_avgSleep questLog)
   \<and> (\<forall>qs. qs \<noteq> [] \<and> sleep_values questLog = map Fin qs \<and> exact_mean qs
         \<longrightarrow> avgSleep questLog = Some (Fin (sum_list qs / of_nat (length qs))))
   \<and> (avgSleep questLog = None \<longrightarrow> filter is_sleep_tip (generatePersonalTips questLog) = [])
   \<and> (\<forall>a. avgSleep questLog = Some a \<longrightarrow>
        (\<exists>t. filter is_sleep_tip (generatePersonalTips questLog) = [t]
           \<and> (num_lt a (Fin 6) \<longrightarrow> t = tip_sleep_low a \<and> type t = ''alert'')
           \<and> (num_ge a (Fin 6) \<and> num_lt a (Fin 7)
                \<longrightarrow> t = tip_sleep_almost a \<and> type t = ''warning'')
           \<and> (num_ge a (Fin 7) \<and> num_le a (Fin 9)
                \<longrightarrow> t = tip_sleep_good a \<and> type t = ''good'')
           \<and> (num_gt a (Fin 9) \<longrightarrow> t = tip_sleep_over a \<and> type t = ''warning'')
           \<and> (a \<noteq> NaN \<longrightarrow>
                num_lt a (Fin 6) \<or> (num_ge a (Fin 6) \<and> num_lt a (Fin 7))
                \<or> (num_ge a (Fin 7) \<and> num_le a (Fin 9)) \<or> num_gt a (Fin 9))
           \<and> sublist (toFixed1 a) (body t)))
   \<and> (\<forall>q. \<bar>q\<bar> < 10 ^ 21 \<longrightarrow>
         toFixed1 (Fin q) =
           (if q < 0 then ''-'' else '''')
           @ digits (nat \<lfloor>\<bar>q\<bar> * 10 + 1 / 2\<rfloor> div 10) @ ''.''
           @ [digit_char (nat \<lfloor>\<bar>q\<bar> * 10 + 1 / 2\<rfloor> mod 10)])
   \<and> avgSleep log_579 = Some (Fin 7)
   \<and> filter is_sleep_tip (generatePersonalTips log_579) = [tip_sleep_good (Fin 7)]
   \<and> type (tip_sleep_good (Fin 7)) = ''good''
   \<and> toFixed1 (Fin 7) = ''7.0''
   \<and> sublist ''7.0'' (body (tip_sleep_good (Fin 7)))"
proof -
  have mean: "\<forall>qs. qs \<noteq> [] \<and> sleep_values questLog = map Fin qs \<and> exact_mean qs
         \<longrightarrow> avgSleep questLog = Some (Fin (sum_list qs / of_nat (length qs)))"
    by (simp add: avgSleep_mean num_mean_exact)
  have none: "avgSleep questLog = None \<longrightarrow> filter is_sleep_tip (generatePersonalTips questLog) = []"
    by (simp add: filter_sleep sleep_section_None)
  have f: "toFixed1 (Fin 7) = ''7.0''"
    by (simp add: num_eval)
  have ex: "avgSleep log_579 = Some (Fin 7)"
    "filter is_sleep_tip (generatePersonalTips log_579) = [tip_sleep_good (Fin 7)]"
    by (simp_all add: filter_sleep) (simp_all add: gen_eval log_defs str_eval num_eval)
  have ty: "type (tip_sleep_good (Fin 7)) = ''good''"
    by simp
  have bo: "sublist ''7.0'' (body (tip_sleep_good (Fin 7)))"
    using tip_bodies(7) [of "Fin 7"] by (simp only: f)
  have cases: "\<forall>a. avgSleep questLog = Some a \<longrightarrow>
        (\<exists>t. filter is_sleep_tip (generatePersonalTips questLog) = [t]
           \<and> (num_lt a (Fin 6) \<longrightarrow> t = tip_sleep_low a \<and> type t = ''alert'')
           \<and> (num_ge a (Fin 6) \<and> num_lt a (Fin 7)
                \<longrightarrow> t = tip_sleep_almost a \<and> type t = ''warning'')
           \<and> (num_ge a (Fin 7) \<and> num_le a (Fin 9)
                \<longrightarrow> t = tip_sleep_good a \<and> type t = ''good'')
           \<and> (num_gt a (Fin 9) \<longrightarrow> t = tip_sleep_over a \<and> type t = ''warning'')
           \<and> (a \<noteq> NaN \<longrightarrow>
                num_lt a (Fin 6) \<or> (num_ge a (Fin 6) \<and> num_lt a (Fin 7))
                \<or> (num_ge a (Fin 7) \<and> num_le a (Fin 9)) \<or> num_gt a (Fin 9))
           \<and> sublist (toFixed1 a) (body t))"
    using sleep_tip_cases [of questLog] num_cases_6_7_9 by blast
  show ?thesis
    using avgSleep_mean [of questLog] avgSleep_None [of questLog] avgSleep_spec [of questLog]
      mean none cases toFixed1_rounds ex ty f bo
    by blast
qed

theorem C2_sleep_average_witness:
  "filter is_sleep_tip (generatePersonalTips log_short_sleep) = [tip_sleep_low (Fin 5.75)]
   \<and> filter is_sleep_tip (generatePersonalTips [blank\<lparr>sleepHours := JStr ''6.5''\<rparr>]) = [tip_sleep_almost (Fin 6.5)]
   \<and> filter is_sleep_tip (generatePersonalTips log_579) = [tip_sleep_good (Fin 7)]
   \<and> filter is_sleep_tip (generatePersonalTips [blank\<lparr>sleepHours := JNum (Fin 10)\<rparr>]) = [tip_sleep_over (Fin 10)]
   \<and> filter is_sleep_tip (generatePersonalTips [blank]) = []
   \<and> avgSleep log_short_sleep = Some (Fin ((5.5 + 6) / 2))
   \<and> toFixed1 (Fin 5.75) = ''5.8''"
proof -
  have "filter is_sleep_tip (generatePersonalTips log_short_sleep) = [tip_sleep_low (Fin 5.75)]"
  proof -
    have av: "avgSleep log_short_sleep = Some (Fin 5.75)"
      and c: "num_lt (Fin 5.75) (Fin 6)"
      by (simp_all add: gen_eval log_defs str_eval num_eval)
    from C2_sleep_average [of "log_short_sleep"] av
    obtain t where t: "filter is_sleep_tip (generatePersonalTips log_short_sleep) = [t]"
      and b: "num_lt (Fin 5.75) (Fin 6) \<longrightarrow> t = tip_sleep_low (Fin 5.75) \<and> type t = ''alert''"
      by blast
    from b c have "t = tip_sleep_low (Fin 5.75)"
      by blast
    with t show ?thesis
      by (simp only:)
  qed
  moreover
  have "filter is_sleep_tip (generatePersonalTips [blank\<lparr>sleepHours := JStr ''6.5''\<rparr>]) = [tip_sleep_almost (Fin 6.5)]"
  proof -
    have av: "avgSleep [blank\<lparr>sleepHours := JStr ''6.5''\<rparr>] = Some (Fin 6.5)"
      and c: "num_ge (Fin 6.5) (Fin 6) \<and> num_lt (Fin 6.5) (Fin 7)"
      by (simp_all add: gen_eval log_defs str_eval num_eval)
    from C2_sleep_average [of "[blank\<lparr>sleepHours := JStr ''6.5''\<rparr>]"] av
    obtain t where t: "filter is_sleep_tip (generatePersonalTips [blank\<lparr>sleepHours := JStr ''6.5''\<rparr>]) = [t]"
      and b: "num_ge (Fin 6.5) (Fin 6) \<and> num_lt (Fin 6.5) (Fin 7) \<longrightarrow> t = tip_sleep_almost (Fin 6.5) \<and> type t = ''warning''"
      by blast
    from b c have "t = tip_sleep_almost (Fin 6.5)"
      by blast
    with t show ?thesis
      by (simp only:)
  qed
  moreover
  have "filter is_sleep_tip (generatePersonalTips log_579) = [tip_sleep_good (Fin 7)]"
  proof -
    have av: "avgSleep log_579 = Some (Fin 7)"
      and c: "num_ge (Fin 7) (Fin 7) \<and> num_le (Fin 7) (Fin 9)"
      by (simp_all add: gen_eval log_defs str_eval num_eval)
    from C2_sleep_average [of "log_579"] av
    obtain t where t: "filter is_sleep_tip (generatePersonalTips log_579) = [t]"
      and b: "num_ge (Fin 7) (Fin 7) \<and> num_le (Fin 7) (Fin 9) \<longrightarrow> t = tip_sleep_good (Fin 7) \<and> type t = ''good''"
      by blast
    from b c have "t = tip_sleep_good (Fin 7)"
      by blast
    with t show ?thesis
      by (simp only:)
  qed
  moreover
  have "filter is_sleep_tip (generatePersonalTips [blank\<lparr>sleepHours := JNum (Fin 10)\<rparr>]) = [tip_sleep_over (Fin 10)]"
  proof -
    have av: "avgSleep [blank\<lparr>sleepHours := JNum (Fin 10)\<rparr>] = Some (Fin 10)"
      and c: "num_gt (Fin 10) (Fin 9)"
      by (simp_all add: gen_eval log_defs str_eval num_eval)
    from C2_sleep_average [of "[blank\<lparr>sleepHours := JNum (Fin 10)\<rparr>]"] av
    obtain t where t: "filter is_sleep_tip (generatePersonalTips [blank\<lparr>sleepHours := JNum (Fin 10)\<rparr>]) = [t]"
      and b: "num_gt (Fin 10) (Fin 9) \<longrightarrow> t = tip_sleep_over (Fin 10) \<and> type t = ''warning''"
      by blast
    from b c have "t = tip_sleep_over (Fin 10)"
      by blast
    with t show ?thesis
      by (simp only:)
  qed
  moreover
  have "filter is_sleep_tip (generatePersonalTips [blank]) = []"
  proof -
    have "avgSleep [blank] = None"
      by (simp add: gen_eval log_defs str_eval num_eval)
    with C2_sleep_average [of "[blank]"] show ?thesis
      by blast
  qed
  moreover
  have "avgSleep log_short_sleep = Some (Fin ((5.5 + 6) / 2))"
  proof -
    have v: "[5.5, 6] \<noteq> ([] :: rat list) \<and> sleep_values log_short_sleep = map Fin [5.5, 6]
        \<and> exact_mean [5.5, 6]"
      by (simp add: gen_eval log_defs str_eval num_eval)
    have s: "sum_list [5.5, 6 :: rat] / of_nat (length [5.5, 6 :: rat]) = (5.5 + 6) / 2"
      by simp
    from C2_sleep_average [of log_short_sleep] v
    have "avgSleep log_short_sleep
        = Some (Fin (sum_list [5.5, 6] / of_nat (length [5.5, 6 :: rat])))"
      by blast
    then show ?thesis
      by (simp only: s)
  qed
  moreover
  have "toFixed1 (Fin 5.75) = ''5.8''"
    by (simp add: num_eval)
  ultimately show ?thesis
    by (simp only: simp_thms)
qed




text \<open>
  C4 holds for every average that is a number, and fails, by the defect of C1, for the
  average \<^verbatim>\<open>NaN\<close>. When \<^verbatim>\<open>avgHR\<close> is not \<^verbatim>\<open>null\<close>, one heart-rate tip is emitted, chosen by
  the average rounded to the nearest integer: info below 60, good from 60 to 100, alert
  above 100, one of the three for every average that is a number (and no heart-rate tip
  when the average is \<^verbatim>\<open>null\<close>). A single value 59.6 is rounded to 60 first and gives the
  good tip. The average is the one of binary64 arithmetic: the values 97, 97.7, 103.6
  and 103.7, whose mean 100.5 would round to 101, have an average just below 100.5, which
  rounds to 100, and give the good tip. But a \<^verbatim>\<open>heartRate\<close> that does not parse makes the
  average \<^verbatim>\<open>NaN\<close>, which is not above 100, and the tip is the alert for a high heart rate.
\<close>

theorem C4_heart_rate:
  "avgHR questLog = num_mean (hr_values questLog)
   \<and> (avgHR questLog = None \<longrightarrow> filter is_hr_tip (generatePersonalTips questLog) = [])
   \<and> (\<forall>a. avgHR questLog = Some a \<longrightarrow>
        (\<exists>t. filter is_hr_tip (generatePersonalTips questLog) = [t]
           \<and> (num_lt (Math_round a) (Fin 60)
                \<longrightarrow> t = tip_hr_low (Math_round a) \<and> type t = ''info'')
           \<and> (num_ge (Math_round a) (Fin 60) \<and> num_le (Math_round a) (Fin 100)
                \<longrightarrow> t = tip_hr_normal (Math_round a) \<and> type t = ''good'')
           \<and> (num_gt (Math_round a) (Fin 100)
                \<longrightarrow> t = tip_hr_high (Math_round a) \<and> type t = ''alert'')
           \<and> (a \<noteq> NaN \<longrightarrow>
                num_lt (Math_round a) (Fin 60)
                \<or> (num_ge (Math_round a) (Fin 60) \<and> num_le (Math_round a) (Fin 100))
                \<or> num_gt (Math_round a) (Fin 100))))
   \<and> (\<forall>q. \<exists>r::int. Math_round (Fin q) = Fin (of_int r) \<and> \<bar>of_int r - q\<bar> \<le> 1 / 2)
   \<and> avgHR [blank\<lparr>heartRate := JNum (F64 59.6)\<rparr>] = Some (F64 59.6)
   \<and> Math_round (F64 59.6) = Fin 60
   \<and> generatePersonalTips [blank\<lparr>heartRate := JNum (F64 59.6)\<rparr>] = [tip_hr_normal (Fin 60)]
   \<and> type (tip_hr_normal (Fin 60)) = ''good''
   \<and> Math_round (Fin (sum_list [97, 97.7, 103.6, 103.7] / 4)) = Fin 101
   \<and> avgHR log_hr_rounded = Some (Fin (7072058789855231 / 2 ^ 46))
   \<and> Math_round (Fin (7072058789855231 / 2 ^ 46)) = Fin 100
   \<and> generatePersonalTips log_hr_rounded = [tip_hr_normal (Fin 100), tip_streak 4]
   \<and> avgHR log_hr_malformed = Some NaN
   \<and> \<not> num_gt (Math_round NaN) (Fin 100)
   \<and> generatePersonalTips log_hr_malformed = [tip_hr_high NaN]
   \<and> type (tip_hr_high NaN) = ''alert''
   \<and> generatePersonalTips (map spec_sanitize log_hr_malformed) = []"
proof -
  have none: "avgHR questLog = None \<longrightarrow> filter is_hr_tip (generatePersonalTips questLog) = []"
    by (simp add: filter_hr heart_rate_section_None)
  have ex: "avgHR [blank\<lparr>heartRate := JNum (F64 59.6)\<rparr>] = Some (F64 59.6)"
    "Math_round (F64 59.6) = Fin 60"
    "generatePersonalTips [blank\<lparr>heartRate := JNum (F64 59.6)\<rparr>] = [tip_hr_normal (Fin 60)]"
    "Math_round (Fin (sum_list [97, 97.7, 103.6, 103.7] / 4)) = Fin 101"
    "avgHR log_hr_rounded = Some (Fin (7072058789855231 / 2 ^ 46))"
    "Math_round (Fin (7072058789855231 / 2 ^ 46)) = Fin 100"
    "generatePersonalTips log_hr_rounded = [tip_hr_normal (Fin 100), tip_streak 4]"
    "avgHR log_hr_malformed = Some NaN"
    "\<not> num_gt (Math_round NaN) (Fin 100)"
    "generatePersonalTips log_hr_malformed = [tip_hr_high NaN]"
    "generatePersonalTips (map spec_sanitize log_hr_malformed) = []"
    by (simp_all add: gen_eval log_defs str_eval num_eval)
  have cases: "\<forall>a. avgHR questLog = Some a \<longrightarrow>
        (\<exists>t. filter is_hr_tip (generatePersonalTips questLog) = [t]
           \<and> (num_lt (Math_round a) (Fin 60)
                \<longrightarrow> t = tip_hr_low (Math_round a) \<and> type t = ''info'')
           \<and> (num_ge (Math_round a) (Fin 60) \<and> num_le (Math_round a) (Fin 100)
                \<longrightarrow> t = tip_hr_normal (Math_round a) \<and> type t = ''good'')
           \<and> (num_gt (Math_round a) (Fin 100)
                \<longrightarrow> t = tip_hr_high (Math_round a) \<and> type t = ''alert'')
           \<and> (a \<noteq> NaN \<longrightarrow>
                num_lt (Math_round a) (Fin 60)
                \<or> (num_ge (Math_round a) (Fin 60) \<and> num_le (Math_round a) (Fin 100))
                \<or> num_gt (Math_round a) (Fin 100)))"
    using hr_tip_cases [of questLog] num_cases_60_100 Math_round_NaN by blast
  show ?thesis
    using avgHR_mean [of questLog] none cases Math_round_nearest ex
      tip_types(10) [of "Fin 60"] tip_types(11) [of NaN]
    by blast
qed

theorem C4_heart_rate_witness:
  "filter is_hr_tip (generatePersonalTips [blank\<lparr>heartRate := JNum (Fin 50)\<rparr>]) = [tip_hr_low (Fin 50)]
   \<and> filter is_hr_tip (generatePersonalTips [blank\<lparr>heartRate := JNum (F64 59.6)\<rparr>]) = [tip_hr_normal (Fin 60)]
   \<and> filter is_hr_tip (generatePersonalTips log_hr_high) = [tip_hr_high (Fin 111)]
   \<and> filter is_hr_tip (generatePersonalTips [blank]) = []"
proof -
  have "filter is_hr_tip (generatePersonalTips [blank\<lparr>heartRate := JNum (Fin 50)\<rparr>]) = [tip_hr_low (Fin 50)]"
  proof -
    have av: "avgHR [blank\<lparr>heartRate := JNum (Fin 50)\<rparr>] = Some (Fin 50)"
      and r: "Math_round (Fin 50) = Fin 50"
      and c: "num_lt (Fin 50) (Fin 60)"
      by (simp_all add: gen_eval log_defs str_eval num_eval)
    from C4_heart_rate [of "[blank\<lparr>heartRate := JNum (Fin 50)\<rparr>]"] av
    obtain t where t: "filter is_hr_tip (generatePersonalTips [blank\<lparr>heartRate := JNum (Fin 50)\<rparr>]) = [t]"
      and b: "num_lt (Math_round (Fin 50)) (Fin 60) \<longrightarrow> t = tip_hr_low (Math_round (Fin 50)) \<and> type t = ''info''"
      by blast
    from b c have "t = tip_hr_low (Fin 50)"
      unfolding r by blast
    with t show ?thesis
      by (simp only:)
  qed
  moreover
  have "filter is_hr_tip (generatePersonalTips [blank\<lparr>heartRate := JNum (F64 59.6)\<rparr>]) = [tip_hr_normal (Fin 60)]"
  proof -
    have av: "avgHR [blank\<lparr>heartRate := JNum (F64 59.6)\<rparr>] = Some (F64 59.6)"
      and r: "Math_round (F64 59.6) = Fin 60"
      and c: "num_ge (Fin 60) (Fin 60) \<and> num_le (Fin 60) (Fin 100)"
      by (simp_all add: gen_eval log_defs str_eval num_eval)
    from C4_heart_rate [of "[blank\<lparr>heartRate := JNum (F64 59.6)\<rparr>]"] av
    obtain t where t: "filter is_hr_tip (generatePersonalTips [blank\<lparr>heartRate := JNum (F64 59.6)\<rparr>]) = [t]"
      and b: "num_ge (Math_round (F64 59.6)) (Fin 60) \<and> num_le (Math_round (F64 59.6)) (Fin 100) \<longrightarrow> t = tip_hr_normal (Math_round (F64 59.6)) \<and> type t = ''good''"
      by blast
    from b c have "t = tip_hr_normal (Fin 60)"
      unfolding r by blast
    with t show ?thesis
      by (simp only:)
  qed
  moreover
  have "filter is_hr_tip (generatePersonalTips log_hr_high) = [tip_hr_high (Fin 111)]"
  proof -
    have av: "avgHR log_hr_high = Some (Fin 110.5)"
      and r: "Math_round (Fin 110.5) = Fin 111"
      and c: "num_gt (Fin 111) (Fin 100)"
      by (simp_all add: gen_eval log_defs str_eval num_eval)
    from C4_heart_rate [of "log_hr_high"] av
    obtain t where t: "filter is_hr_tip (generatePersonalTips log_hr_high) = [t]"
      and b: "num_gt (Math_round (Fin 110.5)) (Fin 100) \<longrightarrow> t = tip_hr_high (Math_round (Fin 110.5)) \<and> type t = ''alert''"
      by blast
    from b c have "t = tip_hr_high (Fin 111)"
      unfolding r by blast
    with t show ?thesis
      by (simp only:)
  qed
  moreover
  have "filter is_hr_tip (generatePersonalTips [blank]) = []"
  proof -
    have "avgHR [blank] = None"
      by (simp add: gen_eval log_defs str_eval num_eval)
    with C4_heart_rate [of "[blank]"] show ?thesis
      by blast
  qed
  ultimately show ?thesis
    by (simp only: simp_thms)
qed

text \<open>
  C5, as stated, fails. With \<^verbatim>\<open>cycleTracking: true\<close> and \<^verbatim>\<open>cycleLength: 0\<close> the length is
  present and below 21, but 0 is falsy: only the tracking tip is emitted.
\<close>

theorem C5_counterexample:
  "spec_present (cycleLength (blank\<lparr>cycleTracking := JBool True, cycleLength := JNum (Fin 0)\<rparr>))
   \<and> num_lt (ToNumber (cycleLength (blank\<lparr>cycleTracking := JBool True, cycleLength := JNum (Fin 0)\<rparr>)))
        (Fin 21)
   \<and> generatePersonalTips [blank\<lparr>cycleTracking := JBool True, cycleLength := JNum (Fin 0)\<rparr>]
       = [tip_cycle_active]"
  by (simp add: gen_eval log_defs str_eval num_eval)

text \<open>
  C5, amended. For a non-empty log, if the latest entry's \<^verbatim>\<open>cycleTracking\<close> is truthy
  (\<^verbatim>\<open>true\<close> is), the cycle tips are the info tip for active tracking, followed by the
  warning with the value of \<^verbatim>\<open>cycleLength\<close> in its body exactly when \<^verbatim>\<open>cycleLength\<close> is
  truthy (present and not 0, \<^verbatim>\<open>null\<close> or the empty string) and, as a number, below 21
  or above 35. If \<^verbatim>\<open>cycleTracking\<close> is falsy (\<^verbatim>\<open>false\<close> or absent), there is no cycle
  tip. A length of 40 gives the two tips in that order, a length of 28 only the first.
\<close>

theorem C5_cycle:
  assumes "questLog \<noteq> []" and "latest = last questLog"
  shows "(truthy (cycleTracking latest) \<longrightarrow>
          filter is_cycle_tip (generatePersonalTips questLog) =
            tip_cycle_active
            # (if truthy (cycleLength latest)
                   \<and> (num_lt (ToNumber (cycleLength latest)) (Fin 21)
                        \<or> num_gt (ToNumber (cycleLength latest)) (Fin 35))
               then [tip_cycle_length (cycleLength latest)] else []))
   \<and> (\<not> truthy (cycleTracking latest) \<longrightarrow>
          filter is_cycle_tip (generatePersonalTips questLog) = [])
   \<and> truthy (JBool True) \<and> \<not> truthy (JBool False) \<and> \<not> truthy JUndefined
   \<and> type tip_cycle_active = ''info''
   \<and> type (tip_cycle_length (cycleLength latest)) = ''warning''
   \<and> sublist (ToString (cycleLength latest)) (body (tip_cycle_length (cycleLength latest)))
   \<and> generatePersonalTips [blank\<lparr>cycleTracking := JBool True, cycleLength := JNum (Fin 40)\<rparr>]
       = [tip_cycle_active, tip_cycle_length (JNum (Fin 40))]
   \<and> ToString (JNum (Fin 40)) = ''40''
   \<and> generatePersonalTips [blank\<lparr>cycleTracking := JBool True, cycleLength := JNum (Fin 28)\<rparr>]
       = [tip_cycle_active]
   \<and> generatePersonalTips [blank\<lparr>cycleTracking := JBool False, cycleLength := JNum (Fin 40)\<rparr>]
       = []"
proof -
  have f: "filter is_cycle_tip (generatePersonalTips questLog) = cycle_section latest []"
    using assms by (simp add: filter_cycle)
  have ex: "generatePersonalTips [blank\<lparr>cycleTracking := JBool True, cycleLength := JNum (Fin 40)\<rparr>]
       = [tip_cycle_active, tip_cycle_length (JNum (Fin 40))]"
    "ToString (JNum (Fin 40)) = ''40''"
    "generatePersonalTips [blank\<lparr>cycleTracking := JBool True, cycleLength := JNum (Fin 28)\<rparr>]
       = [tip_cycle_active]"
    "generatePersonalTips [blank\<lparr>cycleTracking := JBool False, cycleLength := JNum (Fin 40)\<rparr>]
       = []"
    by (simp_all add: gen_eval log_defs str_eval num_eval)
  have g: "(truthy (cycleTracking latest) \<longrightarrow>
          filter is_cycle_tip (generatePersonalTips questLog) =
            tip_cycle_active
            # (if truthy (cycleLength latest)
                   \<and> (num_lt (ToNumber (cycleLength latest)) (Fin 21)
                        \<or> num_gt (ToNumber (cycleLength latest)) (Fin 35))
               then [tip_cycle_length (cycleLength latest)] else []))
     \<and> (\<not> truthy (cycleTracking latest) \<longrightarrow>
          filter is_cycle_tip (generatePersonalTips questLog) = [])"
    unfolding f by (subst (1 2) cycle_section_eq) simp
  have t: "truthy (JBool True) \<and> \<not> truthy (JBool False) \<and> \<not> truthy JUndefined"
    by simp
  show ?thesis
    using g t ex tip_types(12) tip_types(13) [of "cycleLength latest"]
      tip_bodies(12) [of "cycleLength latest"]
    by blast
qed

theorem C5_cycle_witness:
  "filter is_cycle_tip (generatePersonalTips [blank\<lparr>cycleTracking := JBool True, cycleLength := JStr ''18''\<rparr>])
     = [tip_cycle_active, tip_cycle_length (JStr ''18'')]
   \<and> filter is_cycle_tip (generatePersonalTips [blank\<lparr>cycleTracking := JBool True, cycleLength := JNum (Fin 36)\<rparr>])
     = [tip_cycle_active, tip_cycle_length (JNum (Fin 36))]
   \<and> filter is_cycle_tip (generatePersonalTips [blank\<lparr>cycleTracking := JBool True, cycleLength := JNum (Fin 21)\<rparr>])
     = [tip_cycle_active]
   \<and> filter is_cycle_tip (generatePersonalTips [blank\<lparr>cycleTracking := JBool False, cycleLength := JNum (Fin 18)\<rparr>])
     = []"
proof -
  have "filter is_cycle_tip (generatePersonalTips [blank\<lparr>cycleTracking := JBool True, cycleLength := JStr ''18''\<rparr>]) = [tip_cycle_active, tip_cycle_length (JStr ''18'')]"
  proof -
    have ne: "[blank\<lparr>cycleTracking := JBool True, cycleLength := JStr ''18''\<rparr>] \<noteq> []"
      by simp
    have l: "blank\<lparr>cycleTracking := JBool True, cycleLength := JStr ''18''\<rparr> = last [blank\<lparr>cycleTracking := JBool True, cycleLength := JStr ''18''\<rparr>]"
      by simp
    have c: "truthy (JBool True)" "truthy (JStr ''18'')" "num_lt (ToNumber (JStr ''18'')) (Fin 21)"
      by (simp_all add: gen_eval log_defs str_eval num_eval)
    show ?thesis
      using C5_cycle [OF ne l] c by (simp add: blank_def)
  qed
  moreover
  have "filter is_cycle_tip (generatePersonalTips [blank\<lparr>cycleTracking := JBool True, cycleLength := JNum (Fin 36)\<rparr>]) = [tip_cycle_active, tip_cycle_length (JNum (Fin 36))]"
  proof -
    have ne: "[blank\<lparr>cycleTracking := JBool True, cycleLength := JNum (Fin 36)\<rparr>] \<noteq> []"
      by simp
    have l: "blank\<lparr>cycleTracking := JBool True, cycleLength := JNum (Fin 36)\<rparr> = last [blank\<lparr>cycleTracking := JBool True, cycleLength := JNum (Fin 36)\<rparr>]"
      by simp
    have c: "truthy (JBool True)" "truthy (JNum (Fin 36))" "num_gt (ToNumber (JNum (Fin 36))) (Fin 35)"
      by (simp_all add: gen_eval log_defs str_eval num_eval)
    show ?thesis
      using C5_cycle [OF ne l] c by (simp add: blank_def)
  qed
  moreover
  have "filter is_cycle_tip (generatePersonalTips [blank\<lparr>cycleTracking := JBool True, cycleLength := JNum (Fin 21)\<rparr>]) = [tip_cycle_active]"
  proof -
    have ne: "[blank\<lparr>cycleTracking := JBool True, cycleLength := JNum (Fin 21)\<rparr>] \<noteq> []"
      by simp
    have l: "blank\<lparr>cycleTracking := JBool True, cycleLength := JNum (Fin 21)\<rparr> = last [blank\<lparr>cycleTracking := JBool True, cycleLength := JNum (Fin 21)\<rparr>]"
      by simp
    have c: "truthy (JBool True)" "\<not> num_lt (ToNumber (JNum (Fin 21))) (Fin 21)" "\<not> num_gt (ToNumber (JNum (Fin 21))) (Fin 35)"
      by (simp_all add: gen_eval log_defs str_eval num_eval)
    show ?thesis
      using C5_cycle [OF ne l] c by (simp add: blank_def)
  qed
  moreover
  have "filter is_cycle_tip (generatePersonalTips [blank\<lparr>cycleTracking := JBool False, cycleLength := JNum (Fin 18)\<rparr>]) = []"
  proof -
    have ne: "[blank\<lparr>cycleTracking := JBool False, cycleLength := JNum (Fin 18)\<rparr>] \<noteq> []"
      by simp
    have l: "blank\<lparr>cycleTracking := JBool False, cycleLength := JNum (Fin 18)\<rparr> = last [blank\<lparr>cycleTracking := JBool False, cycleLength := JNum (Fin 18)\<rparr>]"
      by simp
    have c: "\<not> truthy (JBool False)"
      by (simp_all add: gen_eval log_defs str_eval num_eval)
    show ?thesis
      using C5_cycle [OF ne l] c by (simp add: blank_def)
  qed
  ultimately show ?thesis
    by (simp only: simp_thms)
qed

text \<open>
  C6. A consistency tip is emitted exactly when the log has at least three entries: then
  it is the only tip of its category, its type is \<^verbatim>\<open>good\<close> and its body holds the number of
  entries in decimal. A log of two entries has none; a log of three entries has one,
  whose body contains \<^verbatim>\<open>3\<close>.
\<close>

theorem C6_consistency:
  "filter is_consistency_tip (generatePersonalTips questLog) =
     (if 3 \<le> length questLog then [tip_streak (length questLog)] else [])
   \<and> type (tip_streak (length questLog)) = ''good''
   \<and> sublist (digits (length questLog)) (body (tip_streak (length questLog)))
   \<and> (length questLog = 2 \<longrightarrow> filter is_consistency_tip (generatePersonalTips questLog) = [])
   \<and> (length questLog = 3 \<longrightarrow>
        (\<exists>t. filter is_consistency_tip (generatePersonalTips questLog) = [t]
           \<and> sublist ''3'' (body t)))"
proof -
  have f: "filter is_consistency_tip (generatePersonalTips questLog) =
     (if 3 \<le> length questLog then [tip_streak (length questLog)] else [])"
    by (simp add: filter_consistency consistency_section_def)
  have b: "sublist (digits (length questLog)) (body (tip_streak (length questLog)))"
    by (rule tip_bodies)
  have three: "length questLog = 3 \<Longrightarrow> sublist ''3'' (body (tip_streak (length questLog)))"
    using b by (simp add: digits_small)
  show ?thesis
    using f b three by simp
qed

theorem C6_consistency_witness:
  "filter is_consistency_tip (generatePersonalTips [blank, blank]) = []
   \<and> filter is_consistency_tip (generatePersonalTips [blank, blank, blank]) = [tip_streak 3]
   \<and> sublist ''3'' (body (tip_streak 3))"
proof -
  have l2: "length [blank, blank] = 2" and l3: "length [blank, blank, blank] = 3"
    by simp_all
  have "filter is_consistency_tip (generatePersonalTips [blank, blank]) = []"
    using C6_consistency [of "[blank, blank]"] by (simp only: l2) simp
  moreover have "filter is_consistency_tip (generatePersonalTips [blank, blank, blank])
      = [tip_streak 3]"
    using C6_consistency [of "[blank, blank, blank]"] by (simp only: l3) simp
  moreover have "sublist ''3'' (body (tip_streak 3))"
    using C6_consistency [of "[blank, blank, blank]"] by (simp only: l3 digits_small)
  ultimately show ?thesis by simp
qed

text \<open>
  C7. For the empty log the function returns the empty sequence of tips: the early return
  of the source, with no error.
\<close>

theorem C7_empty_log: "generatePersonalTips [] = []"
  by (simp add: generatePersonalTips_def)

text \<open>
  C8. The output is the concatenation of what the five sections push, in the order BMI,
  sleep, heart rate, cycle (the tracking tip, then the cycle-length warning),
  consistency; a section whose condition fails contributes nothing, and nothing is
  sorted, removed or moved afterwards. So the categories of the output are in
  non-decreasing order of the sections.
\<close>

theorem C8_order:
  "generatePersonalTips questLog =
     (if questLog = [] then []
      else bmi_section (last questLog) [] @ sleep_section (avgSleep questLog) []
           @ heart_rate_section (avgHR questLog) [] @ cycle_section (last questLog) []
           @ consistency_section questLog [])
   \<and> (\<forall>t \<in> set (bmi_section (last questLog) []). is_bmi_tip t)
   \<and> (\<forall>t \<in> set (sleep_section (avgSleep questLog) []). is_sleep_tip t)
   \<and> (\<forall>t \<in> set (heart_rate_section (avgHR questLog) []). is_hr_tip t)
   \<and> (cycle_section (last questLog) [] = []
        \<or> cycle_section (last questLog) [] = [tip_cycle_active]
        \<or> cycle_section (last questLog) []
            = [tip_cycle_active, tip_cycle_length (cycleLength (last questLog))])
   \<and> (consistency_section questLog [] = []
        \<or> consistency_section questLog [] = [tip_streak (length questLog)])
   \<and> sorted (map category_rank (generatePersonalTips questLog))"
proof -
  have eq: "generatePersonalTips questLog =
     (if questLog = [] then []
      else bmi_section (last questLog) [] @ sleep_section (avgSleep questLog) []
           @ heart_rate_section (avgHR questLog) [] @ cycle_section (last questLog) []
           @ consistency_section questLog [])"
    by (simp add: generatePersonalTips_sections) (simp add: generatePersonalTips_def)
  show ?thesis
    using eq section_shapes(4) [of "last questLog"] section_shapes(5) [of questLog]
      sorted_ranks [of questLog]
    by (simp add: in_sections)
qed

theorem C8_order_witness:
  "generatePersonalTips log_full =
     [tip_bmi_healthy (F64 24.999), tip_sleep_good (Fin 7), tip_hr_normal (Fin 60),
      tip_cycle_active, tip_cycle_length (JNum (Fin 40)), tip_streak 3]
   \<and> map category_rank (generatePersonalTips log_full) = [0, 1, 2, 3, 3, 4]"
proof -
  have ne: "(log_full = []) = False"
    by (simp add: log_full_def)
  have s: "bmi_section (last log_full) [] = [tip_bmi_healthy (F64 24.999)]"
    "sleep_section (avgSleep log_full) [] = [tip_sleep_good (Fin 7)]"
    "heart_rate_section (avgHR log_full) [] = [tip_hr_normal (Fin 60)]"
    "cycle_section (last log_full) [] = [tip_cycle_active, tip_cycle_length (JNum (Fin 40))]"
    "consistency_section log_full [] = [tip_streak 3]"
    by (simp_all add: gen_eval log_defs str_eval num_eval)
  have g: "generatePersonalTips log_full =
     [tip_bmi_healthy (F64 24.999), tip_sleep_good (Fin 7), tip_hr_normal (Fin 60),
      tip_cycle_active, tip_cycle_length (JNum (Fin 40)), tip_streak 3]"
    using C8_order [of log_full] by (simp only: ne s if_False append.simps)
  have r: "map category_rank
      [tip_bmi_healthy (F64 24.999), tip_sleep_good (Fin 7), tip_hr_normal (Fin 60),
       tip_cycle_active, tip_cycle_length (JNum (Fin 40)), tip_streak 3] = [0, 1, 2, 3, 3, 4]"
    by (simp add: category_rank_def)
  show ?thesis
    by (simp only: g r)
qed

text \<open>
  C10. The output has at most six tips: at most one each of the BMI, sleep, heart-rate
  and consistency categories, at most two of the cycle category; the type of every tip
  is one of \<^verbatim>\<open>good\<close>, \<^verbatim>\<open>warning\<close>, \<^verbatim>\<open>alert\<close> and \<^verbatim>\<open>info\<close>.
\<close>

theorem C10_bounds:
  "length (generatePersonalTips questLog) \<le> 6
   \<and> length (filter is_bmi_tip (generatePersonalTips questLog)) \<le> 1
   \<and> length (filter is_sleep_tip (generatePersonalTips questLog)) \<le> 1
   \<and> length (filter is_hr_tip (generatePersonalTips questLog)) \<le> 1
   \<and> length (filter is_cycle_tip (generatePersonalTips questLog)) \<le> 2
   \<and> length (filter is_consistency_tip (generatePersonalTips questLog)) \<le> 1
   \<and> (\<forall>t \<in> set (generatePersonalTips questLog).
         type t \<in> {''good'', ''warning'', ''alert'', ''info''})"
proof (cases "questLog = []")
  case True
  then show ?thesis by (simp add: generatePersonalTips_def)
next
  case False
  have len: "length (generatePersonalTips questLog) \<le> 6"
    using section_lengths(1) [of "last questLog"] section_lengths(2) [of "avgSleep questLog"]
      section_lengths(3) [of "avgHR questLog"] section_lengths(4) [of "last questLog"]
      section_lengths(5) [of questLog] False
    by (simp add: generatePersonalTips_sections)
  have ty: "\<forall>t \<in> set (generatePersonalTips questLog).
         type t \<in> {''good'', ''warning'', ''alert'', ''info''}"
  proof
    fix t
    assume "t \<in> set (generatePersonalTips questLog)"
    then have "t \<in> set (bmi_section (last questLog) [])
        \<or> t \<in> set (sleep_section (avgSleep questLog) [])
        \<or> t \<in> set (heart_rate_section (avgHR questLog) [])
        \<or> t \<in> set (cycle_section (last questLog) [])
        \<or> t \<in> set (consistency_section questLog [])"
      using False by (auto simp: generatePersonalTips_sections)
    then show "type t \<in> {''good'', ''warning'', ''alert'', ''info''}"
      using section_types by blast
  qed
  show ?thesis
    using len ty False section_lengths
    by (simp add: filter_bmi filter_sleep filter_hr filter_cycle filter_consistency)
qed

theorem C10_bounds_witness:
  "length (generatePersonalTips log_full) \<le> 6
   \<and> map type (generatePersonalTips log_full)
       = [''good'', ''good'', ''good'', ''info'', ''warning'', ''good'']"
proof -
  have a: "length (generatePersonalTips log_full) \<le> 6"
    using C10_bounds [of log_full] by (rule conjunct1)
  have b: "map type (generatePersonalTips log_full)
       = [''good'', ''good'', ''good'', ''info'', ''warning'', ''good'']"
    by (simp add: gen_eval log_defs str_eval num_eval)
  from a b show ?thesis by (rule conjI)
qed

end
